theory Spec2Isabelle
  imports Main
begin

section \<open>The headless smart-wallet connector\<close>

text \<open>
  The connector (\<^verbatim>\<open>headlessCSWConnector\<close>) closes over two mutable variables,
  \<^verbatim>\<open>let connected = true\<close> and \<^verbatim>\<open>let walletClient: WalletClient\<close> (declared without an
  initial value, so it is \<^verbatim>\<open>undefined\<close> until \<^verbatim>\<open>getProvider\<close> assigns it), and over the
  wagmi \<^verbatim>\<open>config\<close>. Every method becomes a function on an explicit state; a method that can
  throw returns a sum, \<open>Inl\<close> carrying the error. Calls into viem and wagmi are parameters
  of the model (the record \<open>env\<close>): what they return is an input, not something the
  repository decides.
\<close>

subsection \<open>Values, chains, errors\<close>

text \<open>Request parameters are untyped JavaScript values.\<close>

datatype jsval =
    JUndefined
  | JNull
  | JBool bool
  | JNum int
  | JStr string
  | JArr "jsval list"
  | JObj "(string \<times> jsval) list"

text \<open>
  A JavaScript number as \<^verbatim>\<open>parseInt\<close> can return it: an integer, an infinity or \<^verbatim>\<open>NaN\<close>.
\<close>

datatype jsnum = NaN | Num int | PosInfinity | NegInfinity

record chain =
  chain_id :: nat
  chain_name :: string

datatype error =
    NotConnected
  | TypeError
  | ChainNotConfiguredError
  | SwitchChainError error
  | IntegerOutOfRangeError
  | ExternalError string

record account =
  address :: string

record wallet_client =
  account :: "account option"
  chain :: "chain option"
  transport :: string

datatype event =
    Change_chainId jsnum
  | Change_accounts "string list"
  | Disconnect

record conn_state =
  connected :: bool
  walletClient :: "wallet_client option"
  emitted :: "event list"

text \<open>
  The state of a connector that has just been created: \<^verbatim>\<open>connected = true\<close>, no wallet
  client assigned, nothing emitted.
\<close>

definition fresh :: conn_state where
  "fresh = \<lparr>connected = True, walletClient = None, emitted = []\<rparr>"

subsection \<open>The environment: configuration and external calls\<close>

record user_operation =
  sender :: string
  nonce :: nat
  uo_initCode :: string
  callData :: string
  uo_callGasLimit :: nat
  uo_verificationGasLimit :: nat
  uo_preVerificationGas :: nat
  uo_maxFeePerGas :: nat
  uo_maxPriorityFeePerGas :: nat
  paymasterAndData :: string
  signature :: string

record call =
  call_to :: jsval
  call_from :: string
  call_data :: jsval
  call_value :: jsval

record prepare_args =
  calls :: "call list"
  maxFeePerGas :: nat
  callGasLimit :: nat
  preVerificationGas :: nat
  verificationGasLimit :: nat
  maxPriorityFeePerGas :: nat
  initCode :: string

record write_args =
  contract_address :: string
  functionName :: string
  ops :: "user_operation list"
  beneficiary :: string

record rpc_request =
  rpc_method :: string
  rpc_params :: jsval

record env =
  chains :: "chain list"
  transports :: "(nat \<Rightarrow> string option) option"
  ownerPrivateKey :: string
  ownerIndex :: nat
  csw_address :: string
  entryPoint06Address :: string
  privateKeyToAccount :: "string \<Rightarrow> error + string"
  toCoinbaseSmartAccount :: "chain \<Rightarrow> string \<Rightarrow> nat \<Rightarrow> string \<Rightarrow> error + account"
  getAddress :: "string \<Rightarrow> error + string"
  js_Number :: "string \<Rightarrow> jsnum"
  prepareUserOperation :: "prepare_args \<Rightarrow> error + user_operation"
  signUserOperation :: "user_operation \<Rightarrow> error + string"
  writeContract :: "write_args \<Rightarrow> error + string"
  waitForTransactionReceipt :: "string \<Rightarrow> error + unit"
  json_parse :: "jsval \<Rightarrow> jsval option"
  signTypedData :: "jsval \<Rightarrow> error + string"
  wallet_request :: "rpc_request \<Rightarrow> error + jsval"

subsection \<open>Hexadecimal chain ids\<close>

text \<open>
  \<^verbatim>\<open>switchChain\<close> hands \<^verbatim>\<open>numberToHex(chainId)\<close> to \<^verbatim>\<open>onChainChanged\<close>, which reads it back
  with \<^verbatim>\<open>Number(chain)\<close>. Chain ids are non-negative integers. viem's \<^verbatim>\<open>numberToHex\<close>
  throws \<^verbatim>\<open>IntegerOutOfRangeError\<close> for a number above \<^verbatim>\<open>Number.MAX_SAFE_INTEGER\<close>
  (\<open>2^53 - 1\<close>) and otherwise gives \<^verbatim>\<open>"0x"\<close> followed by the lower-case hexadecimal
  digits. The built-in \<^verbatim>\<open>Number\<close> is the parameter \<open>js_Number\<close> of the environment.
\<close>

definition hex_digit :: "nat \<Rightarrow> char" where
  "hex_digit d = ''0123456789abcdef'' ! d"

function hex_digits :: "nat \<Rightarrow> string" where
  "hex_digits n = (if n < 16 then [hex_digit n] else hex_digits (n div 16) @ [hex_digit (n mod 16)])"
  by pat_completeness auto
termination
  by (relation "measure id") auto

declare hex_digits.simps [simp del]

definition MAX_SAFE_INTEGER :: nat where
  "MAX_SAFE_INTEGER = 9007199254740991"

definition numberToHex :: "nat \<Rightarrow> error + string" where
  "numberToHex n =
     (if n > MAX_SAFE_INTEGER then Inl IntegerOutOfRangeError else Inr (''0x'' @ hex_digits n))"

subsection \<open>Connector methods\<close>


text \<open>
  \<^verbatim>\<open>walletClient.account?.address ? [walletClient.account.address] : []\<close>: reading a
  property of the unassigned \<^verbatim>\<open>walletClient\<close> throws a \<^verbatim>\<open>TypeError\<close>; a missing account or
  an empty address gives the empty list.
\<close>

definition account_list :: "wallet_client \<Rightarrow> string list" where
  "account_list wc =
     (case account wc of
        None \<Rightarrow> []
      | Some a \<Rightarrow> if address a \<noteq> [] then [address a] else [])"

definition getAccounts :: "conn_state \<Rightarrow> error + string list" where
  "getAccounts st =
     (if \<not> connected st then Inl NotConnected
      else case walletClient st of
             None \<Rightarrow> Inl TypeError
           | Some wc \<Rightarrow> Inr (account_list wc))"

text \<open>
  \<^verbatim>\<open>const chainId = walletClient.chain?.id; if (!chainId) throw new Error("Not connected")\<close>.
  The id \<open>0\<close> is falsy.
\<close>

definition getChainId :: "conn_state \<Rightarrow> error + nat" where
  "getChainId st =
     (case walletClient st of
        None \<Rightarrow> Inl TypeError
      | Some wc \<Rightarrow>
          (case chain wc of
             None \<Rightarrow> Inl NotConnected
           | Some c \<Rightarrow> if chain_id c = 0 then Inl NotConnected else Inr (chain_id c)))"

definition isAuthorized :: "conn_state \<Rightarrow> error + bool" where
  "isAuthorized st =
     (if \<not> connected st then Inr False
      else case getAccounts st of
             Inl e \<Rightarrow> Inl e
           | Inr accounts \<Rightarrow> Inr (accounts \<noteq> []))"

text \<open>
  What \<^verbatim>\<open>getProvider\<close> returns: the wallet client it created, spread, with \<^verbatim>\<open>request\<close>
  replaced by a closure over the smart account, the owner account and the clients of the
  resolved chain.
\<close>

record provider =
  p_walletClient :: wallet_client
  p_account :: account
  p_ownerAccount :: string
  p_chain :: chain

text \<open>
  \<^verbatim>\<open>config.chains.find((x) => x.id === chainId) ?? config.chains[0]\<close>: an id that is not
  listed (or no id at all) resolves to the first configured chain.
\<close>

definition resolve_chain :: "chain list \<Rightarrow> nat option \<Rightarrow> chain option" where
  "resolve_chain cs chainId =
     (case find (\<lambda>x. Some (chain_id x) = chainId) cs of
        Some c \<Rightarrow> Some c
      | None \<Rightarrow> (case cs of [] \<Rightarrow> None | c # _ \<Rightarrow> Some c))"

definition transport_for :: "env \<Rightarrow> chain \<Rightarrow> string" where
  "transport_for e c =
     (case transports e of
        None \<Rightarrow> ''http''
      | Some t \<Rightarrow> (case t (chain_id c) of None \<Rightarrow> ''http'' | Some u \<Rightarrow> u))"

definition getProvider :: "env \<Rightarrow> nat option \<Rightarrow> conn_state \<Rightarrow> (error + provider) \<times> conn_state" where
  "getProvider e chainId st =
     (case privateKeyToAccount e (ownerPrivateKey e) of
        Inl err \<Rightarrow> (Inl err, st)
      | Inr ownerAccount \<Rightarrow>
          (case resolve_chain (chains e) chainId of
             None \<Rightarrow> (Inl ChainNotConfiguredError, st)
           | Some c \<Rightarrow>
               (case toCoinbaseSmartAccount e c ownerAccount (ownerIndex e) (csw_address e) of
                  Inl err \<Rightarrow> (Inl err, st)
                | Inr acc \<Rightarrow>
                    (let wc = \<lparr>account = Some acc, chain = Some c, transport = transport_for e c\<rparr>
                     in (Inr \<lparr>p_walletClient = wc, p_account = acc,
                               p_ownerAccount = ownerAccount, p_chain = c\<rparr>,
                         st\<lparr>walletClient := Some wc\<rparr>)))))"

definition onChainChanged :: "env \<Rightarrow> string \<Rightarrow> conn_state \<Rightarrow> conn_state" where
  "onChainChanged e c st = st\<lparr>emitted := emitted st @ [Change_chainId (js_Number e c)]\<rparr>"

definition onDisconnect :: "conn_state \<Rightarrow> conn_state" where
  "onDisconnect st = (st\<lparr>emitted := emitted st @ [Disconnect]\<rparr>)\<lparr>connected := False\<rparr>"

definition switchChain :: "env \<Rightarrow> nat \<Rightarrow> conn_state \<Rightarrow> (error + chain) \<times> conn_state" where
  "switchChain e chainId st =
     (case getProvider e (Some chainId) st of
        (Inl err, st1) \<Rightarrow> (Inl err, st1)
      | (Inr _, st1) \<Rightarrow>
          (case find (\<lambda>x. chain_id x = chainId) (chains e) of
             None \<Rightarrow> (Inl (SwitchChainError ChainNotConfiguredError), st1)
           | Some c \<Rightarrow>
               (case numberToHex chainId of
                  Inl err \<Rightarrow> (Inl err, st1)
                | Inr h \<Rightarrow> (Inr c, onChainChanged e h st1))))"

record connect_result =
  accounts :: "string list"
  chainId :: nat

text \<open>The body of the \<^verbatim>\<open>try\<close> block of \<^verbatim>\<open>connect\<close>.\<close>

definition connect_try :: "env \<Rightarrow> nat option \<Rightarrow> conn_state \<Rightarrow> (error + connect_result) \<times> conn_state" where
  "connect_try e cid st =
     (case getProvider e cid st of
        (Inl err, st1) \<Rightarrow> (Inl err, st1)
      | (Inr _, st1) \<Rightarrow>
          (case getChainId st1 of
             Inl err \<Rightarrow> (Inl err, st1)
           | Inr cur \<Rightarrow>
               (case (case cid of
                        Some n \<Rightarrow>
                          if n \<noteq> 0 \<and> cur \<noteq> n then
                            (case switchChain e n st1 of
                               (Inl err, st2) \<Rightarrow> (Inl err, st2)
                             | (Inr c, st2) \<Rightarrow> (Inr (chain_id c), st2))
                          else (Inr cur, st1)
                      | None \<Rightarrow> (Inr cur, st1)) of
                  (Inl err, st2) \<Rightarrow> (Inl err, st2)
                | (Inr currentChainId, st2) \<Rightarrow>
                    (let st3 = st2\<lparr>connected := True\<rparr>
                     in case walletClient st3 of
                          None \<Rightarrow> (Inl TypeError, st3)
                        | Some wc \<Rightarrow>
                            (Inr \<lparr>accounts = account_list wc, chainId = currentChainId\<rparr>, st3)))))"

text \<open>\<^verbatim>\<open>connect\<close>: the \<^verbatim>\<open>catch\<close> clause turns every error into the empty result.\<close>

definition connect :: "env \<Rightarrow> nat option \<Rightarrow> conn_state \<Rightarrow> connect_result \<times> conn_state" where
  "connect e cid st =
     (case connect_try e cid st of
        (Inl err, st1) \<Rightarrow> (\<lparr>accounts = [], chainId = 0\<rparr>, st1\<lparr>connected := False\<rparr>)
      | (Inr r, st1) \<Rightarrow> (r, st1))"

subsection \<open>Reading request parameters\<close>

text \<open>
  Reading a property of \<^verbatim>\<open>undefined\<close> or \<^verbatim>\<open>null\<close> throws a \<^verbatim>\<open>TypeError\<close>; a property that
  is not there reads as \<^verbatim>\<open>undefined\<close>. An object is an association list from property
  names to values. \<open>js_get\<close> is used for the named properties the code reads
  (\<^verbatim>\<open>to\<close>, \<^verbatim>\<open>data\<close>, \<^verbatim>\<open>value\<close>, \<^verbatim>\<open>gas\<close>, \<^verbatim>\<open>domain\<close>, \<^verbatim>\<open>types\<close>, \<^verbatim>\<open>primaryType\<close>, \<^verbatim>\<open>message\<close>,
  \<^verbatim>\<open>chainId\<close>, \<^verbatim>\<open>chainName\<close>): strings, numbers, booleans and arrays have none of them.
\<close>

definition dec_digit :: "nat \<Rightarrow> char" where
  "dec_digit d = ''0123456789'' ! d"

function dec_string :: "nat \<Rightarrow> string" where
  "dec_string n = (if n < 10 then [dec_digit n] else dec_string (n div 10) @ [dec_digit (n mod 10)])"
  by pat_completeness auto
termination
  by (relation "measure id") auto

declare dec_string.simps [simp del]

definition obj_field :: "(string \<times> jsval) list \<Rightarrow> string \<Rightarrow> jsval" where
  "obj_field kvs k = (case map_of kvs k of None \<Rightarrow> JUndefined | Some v \<Rightarrow> v)"

fun js_get :: "jsval \<Rightarrow> string \<Rightarrow> error + jsval" where
  "js_get JUndefined k = Inl TypeError"
| "js_get JNull k = Inl TypeError"
| "js_get (JObj kvs) k = Inr (obj_field kvs k)"
| "js_get v k = Inr JUndefined"

fun js_index :: "jsval \<Rightarrow> nat \<Rightarrow> error + jsval" where
  "js_index JUndefined i = Inl TypeError"
| "js_index JNull i = Inl TypeError"
| "js_index (JArr xs) i = Inr (if i < length xs then xs ! i else JUndefined)"
| "js_index (JStr s) i = Inr (if i < length s then JStr [s ! i] else JUndefined)"
| "js_index (JObj kvs) i = Inr (obj_field kvs (dec_string i))"
| "js_index v i = Inr JUndefined"

text \<open>
  The object spread \<^verbatim>\<open>{...v}\<close> copies the own enumerable properties of \<^verbatim>\<open>v\<close>: the
  properties of an object, the elements of an array and the characters of a string keyed
  by their index, and nothing for \<^verbatim>\<open>undefined\<close>, \<^verbatim>\<open>null\<close>, numbers and booleans.
\<close>

fun index_entries :: "nat \<Rightarrow> jsval list \<Rightarrow> (string \<times> jsval) list" where
  "index_entries i [] = []"
| "index_entries i (v # vs) = (dec_string i, v) # index_entries (Suc i) vs"

fun js_spread :: "jsval \<Rightarrow> jsval" where
  "js_spread (JObj kvs) = JObj kvs"
| "js_spread (JStr s) = JObj (index_entries 0 (map (\<lambda>c. JStr [c]) s))"
| "js_spread (JArr xs) = JObj (index_entries 0 xs)"
| "js_spread v = JObj []"

subsection \<open>The request dispatcher of the provider\<close>

text \<open>
  Every call that leaves the connector is recorded, in order: the dispatcher returns its
  result (or the error it throws) together with the list of external calls it made.
  \<open>WriteContract\<close> carries the account of the wallet client the call is made on,
  \<open>SignTypedData\<close> the wallet client itself.
\<close>

datatype effect =
    PrepareUserOperation prepare_args
  | SignUserOperation user_operation
  | WriteContract string write_args
  | WaitForTransactionReceipt string
  | SignTypedData wallet_client jsval
  | WalletRequest wallet_client rpc_request

type_synonym 'a comp = "(error + 'a) \<times> effect list"

definition pure :: "'e + 'a \<Rightarrow> ('e + 'a) \<times> 'f list" where
  "pure r = (r, [])"

definition call_ext :: "'f \<Rightarrow> 'e + 'a \<Rightarrow> ('e + 'a) \<times> 'f list" where
  "call_ext ef r = (r, [ef])"

definition and_then :: "('e + 'a) \<times> 'f list \<Rightarrow> ('a \<Rightarrow> ('e + 'b) \<times> 'f list) \<Rightarrow> ('e + 'b) \<times> 'f list" where
  "and_then m f =
     (case m of
        (Inl err, tr) \<Rightarrow> (Inl err, tr)
      | (Inr x, tr) \<Rightarrow> (case f x of (r, tr') \<Rightarrow> (r, tr @ tr')))"


fun is_PrepareUserOperation :: "effect \<Rightarrow> bool" where
  "is_PrepareUserOperation (PrepareUserOperation a) = True"
| "is_PrepareUserOperation ef = False"

text \<open>The argument of \<^verbatim>\<open>bundlerClient.prepareUserOperation\<close>.\<close>

definition user_operation_request :: "jsval \<Rightarrow> string \<Rightarrow> jsval \<Rightarrow> jsval \<Rightarrow> prepare_args" where
  "user_operation_request to from data value =
     \<lparr>calls = [\<lparr>call_to = to, call_from = from, call_data = data, call_value = value\<rparr>],
      maxFeePerGas = 0,
      callGasLimit = 1000000,
      preVerificationGas = 1000000,
      verificationGasLimit = 1000000,
      maxPriorityFeePerGas = 0,
      initCode = ''0x''\<rparr>"

text \<open>
  The argument of \<^verbatim>\<open>ownerWalletClient.writeContract\<close>: \<^verbatim>\<open>handleOps\<close> on the entry point,
  with the batch \<^verbatim>\<open>[{ ...userOp, initCode: "0x", signature: userOpSignature }]\<close> and the
  owner's address as beneficiary.
\<close>

definition handleOps_call :: "env \<Rightarrow> provider \<Rightarrow> user_operation \<Rightarrow> string \<Rightarrow> write_args" where
  "handleOps_call e pr userOp userOpSignature =
     \<lparr>contract_address = entryPoint06Address e,
      functionName = ''handleOps'',
      ops = [userOp\<lparr>uo_initCode := ''0x'', signature := userOpSignature\<rparr>],
      beneficiary = p_ownerAccount pr\<rparr>"

definition current_client :: "conn_state \<Rightarrow> error + wallet_client" where
  "current_client st = (case walletClient st of None \<Rightarrow> Inl TypeError | Some wc \<Rightarrow> Inr wc)"

definition send_transaction :: "env \<Rightarrow> provider \<Rightarrow> rpc_request \<Rightarrow> jsval comp" where
  "send_transaction e pr r =
     and_then (pure (js_index (rpc_params r) 0)) (\<lambda>tx.
     and_then (pure (js_get tx ''to'')) (\<lambda>to.
     and_then (pure (getAddress e (address (p_account pr)))) (\<lambda>from.
     and_then (pure (js_get tx ''data'')) (\<lambda>data.
     and_then (pure (js_get tx ''value'')) (\<lambda>value.
     and_then (call_ext (PrepareUserOperation (user_operation_request to from data value))
                 (prepareUserOperation e (user_operation_request to from data value))) (\<lambda>userOp.
     and_then (call_ext (SignUserOperation userOp) (signUserOperation e userOp)) (\<lambda>userOpSignature.
     and_then (call_ext (WriteContract (p_ownerAccount pr) (handleOps_call e pr userOp userOpSignature))
                 (writeContract e (handleOps_call e pr userOp userOpSignature))) (\<lambda>executeTx.
     and_then (call_ext (WaitForTransactionReceipt executeTx)
                 (waitForTransactionReceipt e executeTx)) (\<lambda>u.
     pure (Inr (JStr executeTx)))))))))))"

text \<open>
  \<^verbatim>\<open>let typedData = args[0].params[1]; try { typedData = JSON.parse(typedData) } catch (e) {}\<close>:
  \<open>json_parse\<close> is \<open>None\<close> where \<^verbatim>\<open>JSON.parse\<close> throws.
\<close>

definition tolerant_parse :: "env \<Rightarrow> jsval \<Rightarrow> jsval" where
  "tolerant_parse e v = (case json_parse e v of None \<Rightarrow> v | Some parsed \<Rightarrow> parsed)"

definition sign_typed_data_v4 :: "env \<Rightarrow> conn_state \<Rightarrow> rpc_request \<Rightarrow> jsval comp" where
  "sign_typed_data_v4 e st r =
     and_then (pure (js_index (rpc_params r) 1)) (\<lambda>raw.
     and_then (pure (current_client st)) (\<lambda>wc.
     and_then (call_ext (SignTypedData wc (js_spread (tolerant_parse e raw)))
                 (signTypedData e (js_spread (tolerant_parse e raw)))) (\<lambda>sig.
     pure (Inr (JStr sig)))))"

text \<open>
  The dispatcher of the first connector unit. \<^verbatim>\<open>walletClient\<close> is the connector's variable,
  read when the request runs. (The second unit has the same connector methods; its
  dispatcher hands \<^verbatim>\<open>eth_sendTransaction\<close> to \<^verbatim>\<open>walletClient.sendTransaction\<close> and has no
  typed-data branch.)
\<close>

definition request :: "env \<Rightarrow> provider \<Rightarrow> conn_state \<Rightarrow> rpc_request \<Rightarrow> jsval comp" where
  "request e pr st r =
     (if rpc_method r = ''eth_sendTransaction'' then send_transaction e pr r
      else if rpc_method r = ''eth_signTypedData_v4'' then sign_typed_data_v4 e st r
      else and_then (pure (current_client st)) (\<lambda>wc.
             call_ext (WalletRequest wc r) (wallet_request e r)))"

section \<open>The session bridge\<close>

text \<open>
  The page component \<^verbatim>\<open>WalletBridgePage\<close>. Its callbacks close over the WalletKit instance,
  the current session request, the wagmi wallet client, the connected address and the
  active chain id; these are the record \<open>bridge_ctx\<close>. What the wallet client, wagmi,
  WalletKit and the JavaScript built-ins answer is the record \<open>bridge_env\<close>. Every call
  the callback makes (wallet capability, session response, toast, React state setter,
  closing the modal) is recorded in order.
\<close>

subsection \<open>Requests, responses, errors\<close>

record session_request =
  sr_id :: nat
  topic :: string
  declared_chain :: string
  sr_request :: rpc_request

datatype rpc_outcome =
    RpcResult jsval
  | RpcError int string

record response =
  resp_id :: nat
  jsonrpc :: string
  outcome :: rpc_outcome

text \<open>
  A thrown value, as the \<^verbatim>\<open>catch\<close> block looks at it: \<^verbatim>\<open>String(error)\<close>, and, when the
  value is an object with a callable \<^verbatim>\<open>walk\<close>, what \<^verbatim>\<open>error.walk(...)\<close> does with the
  predicate the code passes: it throws, it finds nothing, or it returns an error object of
  which the code reads \<^verbatim>\<open>shortMessage\<close>, \<^verbatim>\<open>message\<close>, \<^verbatim>\<open>data?.message\<close>,
  \<^verbatim>\<open>data?.errorName\<close> and its string form.
\<close>

record walked =
  shortMessage :: "string option"
  message :: "string option"
  data_message :: "string option"
  data_errorName :: "string option"
  walked_string :: string

datatype walk_outcome =
    WalkThrows
  | WalkNothing
  | WalkFound walked

record thrown =
  thrown_string :: string
  walk :: "walk_outcome option"

record send_args =
  tx_account :: "string option"
  tx_to :: jsval
  tx_value :: "int option"
  tx_data :: jsval
  tx_gas :: "int option"

record typed_data_args =
  td_account :: "string option"
  td_domain :: jsval
  td_types :: jsval
  td_primaryType :: jsval
  td_message :: jsval

datatype toast =
    ToastAddChain jsval jsval
  | ToastApproved string
  | ToastRejected
  | ToastError bool string

datatype bridge_effect =
    Wallet_sendTransaction send_args
  | Wallet_signMessage "string option" jsval
  | Wallet_signTypedData typed_data_args
  | Wagmi_switchChain jsnum
  | Respond string response
  | Notify toast
  | CloseModal
  | SetPendingRequest bool
  | SetIsSwitchingChain bool
  | SetNeedsChainSwitch bool
  | SetTargetChainId "jsnum option"

record bridge_env =
  wc_sendTransaction :: "send_args \<Rightarrow> thrown + string"
  wc_signMessage :: "string option \<Rightarrow> jsval \<Rightarrow> thrown + string"
  wc_signTypedData :: "typed_data_args \<Rightarrow> thrown + string"
  switchChainAsync :: "jsnum \<Rightarrow> thrown + unit"
  respondSessionRequest :: "string \<Rightarrow> response \<Rightarrow> thrown + unit"
  JSON_parse :: "jsval \<Rightarrow> jsval option"
  BigInt :: "jsval \<Rightarrow> thrown + int"
  parseInt :: "jsval \<Rightarrow> jsnum"
  String_trim :: "string \<Rightarrow> string"
  TypeError_string :: "jsval \<Rightarrow> string \<Rightarrow> string"

record bridge_ctx =
  walletKit :: bool
  currentSessionRequest :: "session_request option"
  has_walletClient :: bool
  user_address :: "string option"
  active_chainId :: nat

type_synonym 'a bcomp = "(thrown + 'a) \<times> bridge_effect list"

text \<open>
  Reading a property of \<^verbatim>\<open>undefined\<close> or \<^verbatim>\<open>null\<close> throws a \<^verbatim>\<open>TypeError\<close>: an error with
  no \<^verbatim>\<open>walk\<close> method, whose string form (the engine's message for that value and that
  property) is the parameter \<open>TypeError_string\<close>.
\<close>

definition type_error :: "bridge_env \<Rightarrow> jsval \<Rightarrow> string \<Rightarrow> thrown" where
  "type_error e v k = \<lparr>thrown_string = TypeError_string e v k, walk = None\<rparr>"

definition read_prop :: "bridge_env \<Rightarrow> jsval \<Rightarrow> string \<Rightarrow> thrown + jsval" where
  "read_prop e v k = (case js_get v k of Inl err \<Rightarrow> Inl (type_error e v k) | Inr x \<Rightarrow> Inr x)"

definition read_index :: "bridge_env \<Rightarrow> jsval \<Rightarrow> nat \<Rightarrow> thrown + jsval" where
  "read_index e v i =
     (case js_index v i of Inl err \<Rightarrow> Inl (type_error e v (dec_string i)) | Inr x \<Rightarrow> Inr x)"

fun is_Respond :: "bridge_effect \<Rightarrow> bool" where
  "is_Respond (Respond t r) = True"
| "is_Respond ef = False"

text \<open>The calls that use a wallet capability: a transaction, a signature, a chain switch.\<close>

fun is_wallet_call :: "bridge_effect \<Rightarrow> bool" where
  "is_wallet_call (Wallet_sendTransaction a) = True"
| "is_wallet_call (Wallet_signMessage a m) = True"
| "is_wallet_call (Wallet_signTypedData a) = True"
| "is_wallet_call (Wagmi_switchChain n) = True"
| "is_wallet_call ef = False"

subsection \<open>Truthiness and strings\<close>

fun js_truthy :: "jsval \<Rightarrow> bool" where
  "js_truthy JUndefined = False"
| "js_truthy JNull = False"
| "js_truthy (JBool b) = b"
| "js_truthy (JNum n) = (n \<noteq> 0)"
| "js_truthy (JStr s) = (s \<noteq> [])"
| "js_truthy (JArr xs) = True"
| "js_truthy (JObj kvs) = True"

text \<open>\<^verbatim>\<open>v ? BigInt(v) : undefined\<close>\<close>

definition optional_BigInt :: "bridge_env \<Rightarrow> jsval \<Rightarrow> thrown + int option" where
  "optional_BigInt e v =
     (if js_truthy v then (case BigInt e v of Inl err \<Rightarrow> Inl err | Inr n \<Rightarrow> Inr (Some n))
      else Inr None)"




text \<open>\<^verbatim>\<open>.replace(/^(Error:|ContractFunctionRevertedError:)/, "")\<close>\<close>

definition strip_error_prefix :: "string \<Rightarrow> string" where
  "strip_error_prefix s =
     (if take 6 s = ''Error:'' then drop 6 s
      else if take 30 s = ''ContractFunctionRevertedError:'' then drop 30 s
      else s)"

definition truthy_text :: "string option \<Rightarrow> bool" where
  "truthy_text t = (case t of None \<Rightarrow> False | Some s \<Rightarrow> s \<noteq> [])"

definition specific_message :: "walked \<Rightarrow> string" where
  "specific_message w =
     (if truthy_text (shortMessage w) then the (shortMessage w)
      else if truthy_text (message w) then the (message w)
      else if truthy_text (data_message w) then the (data_message w)
      else if truthy_text (data_errorName w) then the (data_errorName w)
      else walked_string w)"

text \<open>The message the \<^verbatim>\<open>catch\<close> block of \<^verbatim>\<open>handleSessionRequest\<close> extracts.\<close>

definition error_message :: "bridge_env \<Rightarrow> thrown \<Rightarrow> string" where
  "error_message e err =
     (case walk err of
        None \<Rightarrow> thrown_string err
      | Some WalkThrows \<Rightarrow> thrown_string err
      | Some WalkNothing \<Rightarrow> thrown_string err
      | Some (WalkFound w) \<Rightarrow> String_trim e (strip_error_prefix (specific_message w)))"

subsection \<open>Handling a session request\<close>

definition emit :: "bridge_effect list \<Rightarrow> unit bcomp" where
  "emit efs = (Inr (), efs)"

definition send_transaction_branch :: "bridge_env \<Rightarrow> bridge_ctx \<Rightarrow> rpc_request \<Rightarrow> jsval bcomp" where
  "send_transaction_branch e c rq =
     and_then (pure (read_index e (rpc_params rq) 0)) (\<lambda>txParams.
     and_then (pure (read_prop e txParams ''to'')) (\<lambda>to.
     and_then (pure (read_prop e txParams ''value'')) (\<lambda>v.
     and_then (pure (optional_BigInt e v)) (\<lambda>val.
     and_then (pure (read_prop e txParams ''data'')) (\<lambda>data.
     and_then (pure (read_prop e txParams ''gas'')) (\<lambda>g.
     and_then (pure (optional_BigInt e g)) (\<lambda>gas.
     and_then (call_ext
                 (Wallet_sendTransaction \<lparr>tx_account = user_address c, tx_to = to, tx_value = val,
                    tx_data = data, tx_gas = gas\<rparr>)
                 (wc_sendTransaction e \<lparr>tx_account = user_address c, tx_to = to, tx_value = val,
                    tx_data = data, tx_gas = gas\<rparr>)) (\<lambda>hash.
     pure (Inr (JStr hash))))))))))"

definition sign_message_branch :: "bridge_env \<Rightarrow> bridge_ctx \<Rightarrow> rpc_request \<Rightarrow> jsval bcomp" where
  "sign_message_branch e c rq =
     and_then (pure (read_index e (rpc_params rq) 0)) (\<lambda>msg.
     and_then (call_ext (Wallet_signMessage (user_address c) msg)
                 (wc_signMessage e (user_address c) msg)) (\<lambda>sig.
     pure (Inr (JStr sig))))"

text \<open>
  \<^verbatim>\<open>let typedData = request.params[1]; try { typedData = JSON.parse(request.params[1]) } catch (e) {}\<close>
\<close>

definition bridge_tolerant_parse :: "bridge_env \<Rightarrow> jsval \<Rightarrow> jsval" where
  "bridge_tolerant_parse e v = (case JSON_parse e v of None \<Rightarrow> v | Some parsed \<Rightarrow> parsed)"

definition sign_typed_data_branch :: "bridge_env \<Rightarrow> bridge_ctx \<Rightarrow> rpc_request \<Rightarrow> jsval bcomp" where
  "sign_typed_data_branch e c rq =
     and_then (pure (read_index e (rpc_params rq) 1)) (\<lambda>raw.
     and_then (pure (read_prop e (bridge_tolerant_parse e raw) ''domain'')) (\<lambda>domain.
     and_then (pure (read_prop e (bridge_tolerant_parse e raw) ''types'')) (\<lambda>types.
     and_then (pure (read_prop e (bridge_tolerant_parse e raw) ''primaryType'')) (\<lambda>primaryType.
     and_then (pure (read_prop e (bridge_tolerant_parse e raw) ''message'')) (\<lambda>msg.
     and_then (call_ext
                 (Wallet_signTypedData \<lparr>td_account = user_address c, td_domain = domain,
                    td_types = types, td_primaryType = primaryType, td_message = msg\<rparr>)
                 (wc_signTypedData e \<lparr>td_account = user_address c, td_domain = domain,
                    td_types = types, td_primaryType = primaryType, td_message = msg\<rparr>)) (\<lambda>sig.
     pure (Inr (JStr sig))))))))"

definition switch_chain_branch :: "bridge_env \<Rightarrow> rpc_request \<Rightarrow> jsval bcomp" where
  "switch_chain_branch e rq =
     and_then (pure (read_index e (rpc_params rq) 0)) (\<lambda>p.
     and_then (pure (read_prop e p ''chainId'')) (\<lambda>cid.
     and_then (emit [SetIsSwitchingChain True]) (\<lambda>u.
     and_then (call_ext (Wagmi_switchChain (parseInt e cid))
                 (switchChainAsync e (parseInt e cid))) (\<lambda>u.
     and_then (emit [SetIsSwitchingChain False]) (\<lambda>u.
     pure (Inr JNull))))))"

definition add_chain_branch :: "bridge_env \<Rightarrow> rpc_request \<Rightarrow> jsval bcomp" where
  "add_chain_branch e rq =
     and_then (pure (read_index e (rpc_params rq) 0)) (\<lambda>chainParams.
     and_then (pure (read_prop e chainParams ''chainName'')) (\<lambda>name.
     and_then (pure (read_prop e chainParams ''chainId'')) (\<lambda>cid.
     and_then (emit [Notify (ToastAddChain name cid)]) (\<lambda>u.
     pure (Inr JNull)))))"

text \<open>The \<^verbatim>\<open>if\<close>/\<^verbatim>\<open>else if\<close> chain over \<^verbatim>\<open>request.method\<close>, giving \<^verbatim>\<open>result\<close>.\<close>

definition execute_method :: "bridge_env \<Rightarrow> bridge_ctx \<Rightarrow> rpc_request \<Rightarrow> jsval bcomp" where
  "execute_method e c rq =
     (if rpc_method rq = ''eth_sendTransaction'' then send_transaction_branch e c rq
      else if rpc_method rq = ''personal_sign'' \<or> rpc_method rq = ''eth_sign''
        then sign_message_branch e c rq
      else if rpc_method rq = ''eth_signTypedData'' \<or> rpc_method rq = ''eth_signTypedData_v3''
              \<or> rpc_method rq = ''eth_signTypedData_v4''
        then sign_typed_data_branch e c rq
      else if rpc_method rq = ''wallet_switchEthereumChain'' then switch_chain_branch e rq
      else if rpc_method rq = ''wallet_addEthereumChain'' then add_chain_branch e rq
      else pure (Inr (JStr ''0x'')))"

definition success_response :: "session_request \<Rightarrow> jsval \<Rightarrow> response" where
  "success_response sr result = \<lparr>resp_id = sr_id sr, jsonrpc = ''2.0'', outcome = RpcResult result\<rparr>"

definition rejection_response :: "session_request \<Rightarrow> response" where
  "rejection_response sr =
     \<lparr>resp_id = sr_id sr, jsonrpc = ''2.0'', outcome = RpcError 4001 ''User rejected the request''\<rparr>"

definition approve_branch :: "bridge_env \<Rightarrow> bridge_ctx \<Rightarrow> session_request \<Rightarrow> unit bcomp" where
  "approve_branch e c sr =
     and_then (emit [SetPendingRequest True]) (\<lambda>u.
     and_then (execute_method e c (sr_request sr)) (\<lambda>result.
     and_then (call_ext (Respond (topic sr) (success_response sr result))
                 (respondSessionRequest e (topic sr) (success_response sr result))) (\<lambda>u.
     emit [SetPendingRequest False, SetNeedsChainSwitch False, SetTargetChainId None,
           Notify (ToastApproved (rpc_method (sr_request sr)))])))"

definition reject_branch :: "bridge_env \<Rightarrow> session_request \<Rightarrow> unit bcomp" where
  "reject_branch e sr =
     and_then (call_ext (Respond (topic sr) (rejection_response sr))
                 (respondSessionRequest e (topic sr) (rejection_response sr))) (\<lambda>u.
     emit [Notify ToastRejected])"

text \<open>The body of the \<^verbatim>\<open>try\<close> block.\<close>

definition handle_try :: "bridge_env \<Rightarrow> bridge_ctx \<Rightarrow> session_request \<Rightarrow> bool \<Rightarrow> unit bcomp" where
  "handle_try e c sr approve =
     and_then (if approve then approve_branch e c sr else reject_branch e sr) (\<lambda>u.
     emit [CloseModal])"

text \<open>
  \<^verbatim>\<open>handleSessionRequest(approve)\<close>: nothing happens unless WalletKit, a current request
  and a wallet client are there; the \<^verbatim>\<open>catch\<close> block resets the flags and shows an error
  toast, and leaves the modal open.
\<close>

definition handleSessionRequest :: "bridge_env \<Rightarrow> bridge_ctx \<Rightarrow> bool \<Rightarrow> bridge_effect list" where
  "handleSessionRequest e c approve =
     (if \<not> walletKit c \<or> \<not> has_walletClient c then []
      else case currentSessionRequest c of
             None \<Rightarrow> []
           | Some sr \<Rightarrow>
               (case handle_try e c sr approve of
                  (Inr u, tr) \<Rightarrow> tr
                | (Inl err, tr) \<Rightarrow>
                    tr @ [SetPendingRequest False, SetIsSwitchingChain False,
                          SetNeedsChainSwitch False, SetTargetChainId None,
                          Notify (ToastError approve (error_message e err))]))"

subsection \<open>Deciding whether a chain switch is needed\<close>




section \<open>Concrete inputs\<close>

text \<open>A configuration with the single chain Base (id 8453), used to run the model.\<close>

definition base_chain :: chain where
  "base_chain = \<lparr>chain_id = 8453, chain_name = ''Base''\<rparr>"

definition demo_account :: account where
  "demo_account = \<lparr>address = ''0xC5''\<rparr>"

definition demo_client :: wallet_client where
  "demo_client = \<lparr>account = Some demo_account, chain = Some base_chain, transport = ''http''\<rparr>"

definition unbound_client :: wallet_client where
  "unbound_client = \<lparr>account = None, chain = None, transport = ''http''\<rparr>"

definition demo_op :: user_operation where
  "demo_op = \<lparr>sender = ''0xC5'', nonce = 7, uo_initCode = ''0xfac'', callData = ''0xb61d27f6'',
     uo_callGasLimit = 1000000, uo_verificationGasLimit = 1000000,
     uo_preVerificationGas = 1000000, uo_maxFeePerGas = 0, uo_maxPriorityFeePerGas = 0,
     paymasterAndData = ''0x'', signature = ''0x''\<rparr>"

definition demo_env :: env where
  "demo_env = \<lparr>chains = [base_chain], transports = None, ownerPrivateKey = ''0x01'',
     ownerIndex = 0, csw_address = ''0xC5'',
     entryPoint06Address = ''0x5FF137D4b0FDCD49DcA30c7CF57E578a026d2789'',
     privateKeyToAccount = (\<lambda>k. Inr ''0x0A''),
     toCoinbaseSmartAccount = (\<lambda>c owner i a. Inr \<lparr>address = a\<rparr>),
     getAddress = (\<lambda>a. Inr a),
     js_Number = (\<lambda>h. if h = ''0x2105'' then Num 8453 else NaN),
     prepareUserOperation = (\<lambda>a. Inr demo_op),
     signUserOperation = (\<lambda>u. Inr ''0x51''),
     writeContract = (\<lambda>w. Inr ''0x7A''),
     waitForTransactionReceipt = (\<lambda>h. Inr ()),
     json_parse = (\<lambda>v. None),
     signTypedData = (\<lambda>v. Inr ''0x5190''),
     wallet_request = (\<lambda>r. Inr JNull)\<rparr>"

definition demo_provider :: provider where
  "demo_provider = \<lparr>p_walletClient = demo_client, p_account = demo_account,
     p_ownerAccount = ''0x0A'', p_chain = base_chain\<rparr>"

definition bound :: conn_state where
  "bound = \<lparr>connected = True, walletClient = Some demo_client, emitted = []\<rparr>"


text \<open>A trim that is right on ASCII strings, for running the model.\<close>

definition is_space :: "char \<Rightarrow> bool" where
  "is_space c = (c \<in> set [CHR '' '', CHR 0x09, CHR 0x0A, CHR 0x0B, CHR 0x0C, CHR 0x0D])"

definition ascii_trim :: "string \<Rightarrow> string" where
  "ascii_trim s = rev (dropWhile is_space (rev (dropWhile is_space s)))"

definition syntax_error :: thrown where
  "syntax_error = \<lparr>thrown_string = ''SyntaxError: Cannot convert to a BigInt'', walk = None\<rparr>"

text \<open>A bridge whose wallet rejects every transaction with a revert.\<close>

definition revert_error :: thrown where
  "revert_error = \<lparr>thrown_string = ''ContractFunctionExecutionError: reverted'',
     walk = Some (WalkFound \<lparr>shortMessage = Some ''Execution reverted.'', message = None,
       data_message = None, data_errorName = None,
       walked_string = ''ContractFunctionRevertedError: Execution reverted.''\<rparr>)\<rparr>"

definition demo_bridge_env :: bridge_env where
  "demo_bridge_env = \<lparr>wc_sendTransaction = (\<lambda>a. Inl revert_error),
     wc_signMessage = (\<lambda>a m. Inr ''0x5191''),
     wc_signTypedData = (\<lambda>a. Inr ''0x5192''),
     switchChainAsync = (\<lambda>n. Inr ()),
     respondSessionRequest = (\<lambda>t r. Inr ()),
     JSON_parse = (\<lambda>v. None),
     BigInt = (\<lambda>v. if v = JStr ''0x1'' then Inr 1 else Inl syntax_error),
     parseInt = (\<lambda>v. if v = JStr ''1'' then Num 1
                      else if v = JStr ''8453'' then Num 8453 else NaN),
     String_trim = ascii_trim,
     TypeError_string = (\<lambda>v k. ''TypeError: Cannot read properties of undefined'')\<rparr>"

definition demo_session :: "string \<Rightarrow> string \<Rightarrow> jsval \<Rightarrow> session_request" where
  "demo_session ch m ps = \<lparr>sr_id = 42, topic = ''t0'', declared_chain = ch,
     sr_request = \<lparr>rpc_method = m, rpc_params = ps\<rparr>\<rparr>"

definition demo_ctx :: "session_request \<Rightarrow> bridge_ctx" where
  "demo_ctx sr = \<lparr>walletKit = True, currentSessionRequest = Some sr, has_walletClient = True,
     user_address = Some ''0xC5'', active_chainId = 8453\<rparr>"

definition send_session :: session_request where
  "send_session = demo_session ''eip155:1'' ''eth_sendTransaction''
     (JArr [JObj [(''to'', JStr ''0xAAA''), (''value'', JStr ''0x1'')]])"

definition add_chain_session :: session_request where
  "add_chain_session = demo_session ''eip155:8453'' ''wallet_addEthereumChain''
     (JArr [JObj [(''chainId'', JStr ''0x1''), (''chainName'', JStr ''Mainnet'')]])"

definition typed_session :: session_request where
  "typed_session = demo_session ''eip155:8453'' ''eth_signTypedData_v4''
     (JArr [JStr ''0xC5'', JStr ''abc''])"

definition demo_typed :: rpc_request where
  "demo_typed = \<lparr>rpc_method = ''eth_signTypedData_v4'',
     rpc_params = JArr [JStr ''0xC5'', JStr ''abc'']\<rparr>"

text \<open>Configurations whose only chain has id 0, and id \<open>2^53\<close>.\<close>

definition zero_chain :: chain where
  "zero_chain = \<lparr>chain_id = 0, chain_name = ''Zero''\<rparr>"

definition zero_env :: env where
  "zero_env = demo_env\<lparr>chains := [zero_chain]\<rparr>"

definition big_chain :: chain where
  "big_chain = \<lparr>chain_id = 9007199254740992, chain_name = ''Big''\<rparr>"

definition big_env :: env where
  "big_env = demo_env\<lparr>chains := [big_chain]\<rparr>"

text \<open>A configuration in which the smart account cannot be derived.\<close>

definition failing_env :: env where
  "failing_env = demo_env\<lparr>toCoinbaseSmartAccount := (\<lambda>c owner i a. Inl (ExternalError ''rpc''))\<rparr>"

text \<open>An add-chain request without parameters, and a bridge without a wallet client.\<close>

definition bare_add_chain_session :: session_request where
  "bare_add_chain_session = demo_session ''eip155:8453'' ''wallet_addEthereumChain'' (JArr [])"

definition no_client_ctx :: "session_request \<Rightarrow> bridge_ctx" where
  "no_client_ctx sr = (demo_ctx sr)\<lparr>has_walletClient := False\<rparr>"


section \<open>Properties of the connector\<close>

subsection \<open>Provider derivation\<close>

lemma getProvider_Inl: "getProvider e cid st = (Inl err, st1) \<Longrightarrow> st1 = st"
  by (auto simp: getProvider_def Let_def split: sum.splits option.splits)

lemma getProvider_Inr:
  "getProvider e cid st = (Inr p, st1) \<Longrightarrow>
     \<exists>c acc. resolve_chain (chains e) cid = Some c
       \<and> toCoinbaseSmartAccount e c (p_ownerAccount p) (ownerIndex e) (csw_address e) = Inr acc
       \<and> privateKeyToAccount e (ownerPrivateKey e) = Inr (p_ownerAccount p)
       \<and> p_chain p = c \<and> p_account p = acc
       \<and> p_walletClient p = \<lparr>account = Some acc, chain = Some c, transport = transport_for e c\<rparr>
       \<and> st1 = st\<lparr>walletClient := Some (p_walletClient p)\<rparr>"
  by (auto simp: getProvider_def Let_def split: sum.splits option.splits)

lemma resolve_chain_Some_iff:
  "resolve_chain cs cid = Some c \<longleftrightarrow>
     find (\<lambda>x. Some (chain_id x) = cid) cs = Some c
     \<or> find (\<lambda>x. Some (chain_id x) = cid) cs = None \<and> (\<exists>cs'. cs = c # cs')"
  by (auto simp: resolve_chain_def split: option.splits list.splits)

lemma resolve_chain_None_iff: "resolve_chain cs cid = None \<longleftrightarrow> cs = []"
  by (auto simp: resolve_chain_def find_None_iff split: option.splits list.splits)

lemma resolve_chain_listed:
  "find (\<lambda>x. chain_id x = n) cs = Some c \<Longrightarrow> resolve_chain cs (Some n) = Some c"
  by (simp add: resolve_chain_def)

lemma getProvider_key_fails:
  "privateKeyToAccount e (ownerPrivateKey e) = Inl err \<Longrightarrow> getProvider e cid st = (Inl err, st)"
  by (simp add: getProvider_def)

lemma getProvider_no_chain:
  "privateKeyToAccount e (ownerPrivateKey e) = Inr owner \<Longrightarrow> chains e = [] \<Longrightarrow>
     getProvider e cid st = (Inl ChainNotConfiguredError, st)"
  by (simp add: getProvider_def resolve_chain_def)

lemma getProvider_account_fails:
  "privateKeyToAccount e (ownerPrivateKey e) = Inr owner \<Longrightarrow>
   resolve_chain (chains e) cid = Some c \<Longrightarrow>
   toCoinbaseSmartAccount e c owner (ownerIndex e) (csw_address e) = Inl err \<Longrightarrow>
     getProvider e cid st = (Inl err, st)"
  by (simp add: getProvider_def)

lemma getProvider_succeeds:
  "privateKeyToAccount e (ownerPrivateKey e) = Inr owner \<Longrightarrow>
   resolve_chain (chains e) cid = Some c \<Longrightarrow>
   toCoinbaseSmartAccount e c owner (ownerIndex e) (csw_address e) = Inr acc \<Longrightarrow>
     getProvider e cid st =
       (Inr \<lparr>p_walletClient = \<lparr>account = Some acc, chain = Some c, transport = transport_for e c\<rparr>,
             p_account = acc, p_ownerAccount = owner, p_chain = c\<rparr>,
        st\<lparr>walletClient := Some \<lparr>account = Some acc, chain = Some c, transport = transport_for e c\<rparr>\<rparr>)"
  by (simp add: getProvider_def Let_def)

lemma chains_demo: "chains demo_env = [base_chain]"
  by (simp add: demo_env_def)

lemma getProvider_demo:
  "getProvider demo_env cid st = (Inr demo_provider, st\<lparr>walletClient := Some demo_client\<rparr>)"
  by (simp add: getProvider_def demo_env_def resolve_chain_def transport_for_def Let_def
      demo_provider_def demo_client_def demo_account_def split: option.splits)

lemma getProvider_zero:
  "getProvider zero_env cid st =
     (Inr \<lparr>p_walletClient = \<lparr>account = Some demo_account, chain = Some zero_chain, transport = ''http''\<rparr>,
           p_account = demo_account, p_ownerAccount = ''0x0A'', p_chain = zero_chain\<rparr>,
      st\<lparr>walletClient :=
           Some \<lparr>account = Some demo_account, chain = Some zero_chain, transport = ''http''\<rparr>\<rparr>)"
  by (simp add: getProvider_def zero_env_def demo_env_def resolve_chain_def transport_for_def Let_def
      demo_account_def split: option.splits)

subsection \<open>Reading the chain id\<close>




subsection \<open>Authorization\<close>

lemma isAuthorized_not_connected: "\<not> connected st \<Longrightarrow> isAuthorized st = Inr False"
  by (simp add: isAuthorized_def)

lemma isAuthorized_with_client:
  "walletClient st = Some wc \<Longrightarrow> isAuthorized st = Inr (connected st \<and> account_list wc \<noteq> [])"
  by (simp add: isAuthorized_def getAccounts_def)

lemma isAuthorized_raises_iff:
  "(\<exists>err. isAuthorized st = Inl err) \<longleftrightarrow> connected st \<and> walletClient st = None"
  by (auto simp: isAuthorized_def getAccounts_def split: option.splits)

text \<open>
  C8. On a connector that has just been created (\<^verbatim>\<open>connected = true\<close>, \<^verbatim>\<open>walletClient\<close> not
  yet assigned) \<^verbatim>\<open>isAuthorized\<close> passes its \<^verbatim>\<open>connected\<close> guard, calls \<^verbatim>\<open>getAccounts\<close>, and
  the read of \<^verbatim>\<open>walletClient.account\<close> throws: the call raises instead of returning a
  boolean.
\<close>

theorem isAuthorized_fresh_raises:
  "connected fresh = True \<and> walletClient fresh = None \<and> isAuthorized fresh = Inl TypeError"
  by (simp add: isAuthorized_def getAccounts_def fresh_def)

subsection \<open>Connecting\<close>

lemma switchChain_unlisted_after:
  assumes "getProvider e (Some n) st = (Inr p, st1)"
    and "find (\<lambda>x. chain_id x = n) (chains e) = None"
  shows "switchChain e n st = (Inl (SwitchChainError ChainNotConfiguredError), st1)"
  using assms by (simp add: switchChain_def)

lemma connect_Inl:
  "connect_try e cid st = (Inl err, st1) \<Longrightarrow>
     connect e cid st = (\<lparr>accounts = [], chainId = 0\<rparr>, st1\<lparr>connected := False\<rparr>)"
  by (simp add: connect_def)

lemma connect_try_provider_fails:
  "getProvider e cid st = (Inl err, st1) \<Longrightarrow> connect_try e cid st = (Inl err, st1)"
  by (simp add: connect_try_def)

lemma connect_try_chainId_fails:
  "getProvider e cid st = (Inr p, st1) \<Longrightarrow> getChainId st1 = Inl err \<Longrightarrow>
     connect_try e cid st = (Inl err, st1)"
  by (simp add: connect_try_def)

lemma connect_try_switch_fails:
  "getProvider e (Some n) st = (Inr p, st1) \<Longrightarrow> getChainId st1 = Inr cur \<Longrightarrow> n \<noteq> 0 \<Longrightarrow>
     cur \<noteq> n \<Longrightarrow> switchChain e n st1 = (Inl err, st2) \<Longrightarrow>
     connect_try e (Some n) st = (Inl err, st2)"
  by (simp add: connect_try_def)

text \<open>
  What \<^verbatim>\<open>connect\<close> does once the owner key, the chain and the smart account are there.
\<close>

lemma connect_with_provider:
  assumes owner: "privateKeyToAccount e (ownerPrivateKey e) = Inr owner"
    and rc: "resolve_chain (chains e) cid = Some c"
    and acc: "toCoinbaseSmartAccount e c owner (ownerIndex e) (csw_address e) = Inr acc"
  defines "wc \<equiv> \<lparr>account = Some acc, chain = Some c, transport = transport_for e c\<rparr>"
  shows "connect e cid st =
     (if chain_id c \<noteq> 0 \<and> (cid = None \<or> cid = Some 0 \<or> cid = Some (chain_id c))
      then (\<lparr>accounts = (if address acc = [] then [] else [address acc]), chainId = chain_id c\<rparr>,
            st\<lparr>walletClient := Some wc, connected := True\<rparr>)
      else (\<lparr>accounts = [], chainId = 0\<rparr>, st\<lparr>walletClient := Some wc, connected := False\<rparr>))"
proof -
  let ?st1 = "st\<lparr>walletClient := Some wc\<rparr>"
  let ?p = "\<lparr>p_walletClient = wc, p_account = acc, p_ownerAccount = owner, p_chain = c\<rparr>"
  have g: "getProvider e cid st = (Inr ?p, ?st1)"
    unfolding wc_def by (rule getProvider_succeeds [OF owner rc acc])
  have al: "account_list wc = (if address acc = [] then [] else [address acc])"
    by (simp add: account_list_def wc_def)
  show ?thesis
  proof (cases "chain_id c = 0")
    case True
    then have "getChainId ?st1 = Inl NotConnected"
      by (simp add: getChainId_def wc_def)
    with g have "connect_try e cid st = (Inl NotConnected, ?st1)"
      by (rule connect_try_chainId_fails)
    with True show ?thesis by (simp add: connect_def)
  next
    case nz: False
    then have cur: "getChainId ?st1 = Inr (chain_id c)"
      by (simp add: getChainId_def wc_def)
    show ?thesis
    proof (cases "cid = None \<or> cid = Some 0 \<or> cid = Some (chain_id c)")
      case True
      with g cur have "connect_try e cid st =
          (Inr \<lparr>accounts = account_list wc, chainId = chain_id c\<rparr>, ?st1\<lparr>connected := True\<rparr>)"
        by (auto simp: connect_try_def Let_def)
      with True nz al show ?thesis by (simp add: connect_def)
    next
      case False
      then obtain n where n: "cid = Some n" "n \<noteq> 0" "chain_id c \<noteq> n"
        by (cases cid) auto
      have nf: "find (\<lambda>x. chain_id x = n) (chains e) = None"
      proof (rule ccontr)
        assume "find (\<lambda>x. chain_id x = n) (chains e) \<noteq> None"
        then obtain c' where f: "find (\<lambda>x. chain_id x = n) (chains e) = Some c'" by auto
        then have "resolve_chain (chains e) (Some n) = Some c'" by (rule resolve_chain_listed)
        with rc n have "c' = c" by simp
        moreover from f have "chain_id c' = n" by (auto simp: find_Some_iff)
        ultimately show False using n by simp
      qed
      have g2: "getProvider e (Some n) ?st1 = (Inr ?p, ?st1)"
        using getProvider_succeeds [OF owner rc acc, of ?st1] n by (simp add: wc_def)
      have sw: "switchChain e n ?st1 = (Inl (SwitchChainError ChainNotConfiguredError), ?st1)"
        by (rule switchChain_unlisted_after [OF g2 nf])
      from g n have g': "getProvider e (Some n) st = (Inr ?p, ?st1)" by simp
      have "connect_try e (Some n) st = (Inl (SwitchChainError ChainNotConfiguredError), ?st1)"
        using n by (intro connect_try_switch_fails [OF g' cur _ _ sw]) auto
      with n False show ?thesis by (simp add: connect_def)
    qed
  qed
qed


lemma getChainId_demo: "getChainId (st\<lparr>walletClient := Some demo_client\<rparr>) = Inr 8453"
  by (simp add: getChainId_def demo_client_def base_chain_def)

lemma switchChain_demo_unlisted:
  "switchChain demo_env 1 st =
     (Inl (SwitchChainError ChainNotConfiguredError), st\<lparr>walletClient := Some demo_client\<rparr>)"
  by (simp add: switchChain_def getProvider_demo chains_demo base_chain_def)

text \<open>
  C6. \<^verbatim>\<open>connect\<close> never raises: it is a total function of the configuration, the
  requested chain id and the state. If the owner key cannot be turned into an account, no
  chain is configured, or the smart account cannot be derived (provider construction
  fails), it returns \<^verbatim>\<open>{accounts: [], chainId: 0}\<close> and sets \<^verbatim>\<open>connected\<close> to false. Once the
  provider is built on the resolved chain (the wallet client is then bound to it), it
  succeeds exactly when that chain's id is not 0 (the chain-id read) and the requested id
  is absent, 0, or the resolved chain's id (no chain switch, which could only fail): it
  then sets \<^verbatim>\<open>connected\<close> to true and returns the account's address as a one-element list
  (the empty list if the address is empty) with the resolved chain's id. Otherwise it
  returns \<^verbatim>\<open>{accounts: [], chainId: 0}\<close> with \<^verbatim>\<open>connected\<close> false. The same holds stated
  on the three steps: a failure of \<^verbatim>\<open>getProvider\<close>, of \<^verbatim>\<open>getChainId\<close> or of \<^verbatim>\<open>switchChain\<close>
  gives the empty result and the disconnected state.
\<close>

theorem connect_swallows_failures:
  "(\<forall>err. privateKeyToAccount e (ownerPrivateKey e) = Inl err \<longrightarrow>
        connect e cid st = (\<lparr>accounts = [], chainId = 0\<rparr>, st\<lparr>connected := False\<rparr>))
   \<and> (\<forall>owner. privateKeyToAccount e (ownerPrivateKey e) = Inr owner \<and> chains e = [] \<longrightarrow>
        connect e cid st = (\<lparr>accounts = [], chainId = 0\<rparr>, st\<lparr>connected := False\<rparr>))
   \<and> (\<forall>owner c.
        privateKeyToAccount e (ownerPrivateKey e) = Inr owner
        \<and> (find (\<lambda>x. Some (chain_id x) = cid) (chains e) = Some c
            \<or> find (\<lambda>x. Some (chain_id x) = cid) (chains e) = None \<and> (\<exists>cs. chains e = c # cs)) \<longrightarrow>
        (\<forall>err. toCoinbaseSmartAccount e c owner (ownerIndex e) (csw_address e) = Inl err \<longrightarrow>
            connect e cid st = (\<lparr>accounts = [], chainId = 0\<rparr>, st\<lparr>connected := False\<rparr>))
        \<and> (\<forall>acc. toCoinbaseSmartAccount e c owner (ownerIndex e) (csw_address e) = Inr acc \<longrightarrow>
            (\<exists>t. walletClient (snd (connect e cid st)) =
                    Some \<lparr>account = Some acc, chain = Some c, transport = t\<rparr>)
            \<and> emitted (snd (connect e cid st)) = emitted st
            \<and> (if chain_id c \<noteq> 0 \<and> (cid = None \<or> cid = Some 0 \<or> cid = Some (chain_id c))
               then fst (connect e cid st) =
                      \<lparr>accounts = (if address acc = [] then [] else [address acc]),
                       chainId = chain_id c\<rparr>
                    \<and> connected (snd (connect e cid st)) = True
               else fst (connect e cid st) = \<lparr>accounts = [], chainId = 0\<rparr>
                    \<and> connected (snd (connect e cid st)) = False)))
   \<and> (\<forall>err st1. getProvider e cid st = (Inl err, st1) \<longrightarrow>
        connect e cid st = (\<lparr>accounts = [], chainId = 0\<rparr>, st1\<lparr>connected := False\<rparr>))
   \<and> (\<forall>p st1 err. getProvider e cid st = (Inr p, st1) \<and> getChainId st1 = Inl err \<longrightarrow>
        connect e cid st = (\<lparr>accounts = [], chainId = 0\<rparr>, st1\<lparr>connected := False\<rparr>))
   \<and> (\<forall>p st1 cur n err st2.
        getProvider e cid st = (Inr p, st1) \<and> getChainId st1 = Inr cur \<and> cid = Some n
        \<and> n \<noteq> 0 \<and> cur \<noteq> n \<and> switchChain e n st1 = (Inl err, st2) \<longrightarrow>
        connect e cid st = (\<lparr>accounts = [], chainId = 0\<rparr>, st2\<lparr>connected := False\<rparr>))"
proof -
  have k: "\<forall>err. privateKeyToAccount e (ownerPrivateKey e) = Inl err \<longrightarrow>
        connect e cid st = (\<lparr>accounts = [], chainId = 0\<rparr>, st\<lparr>connected := False\<rparr>)"
    by (simp add: getProvider_key_fails connect_try_provider_fails connect_Inl)
  have n: "\<forall>owner. privateKeyToAccount e (ownerPrivateKey e) = Inr owner \<and> chains e = [] \<longrightarrow>
        connect e cid st = (\<lparr>accounts = [], chainId = 0\<rparr>, st\<lparr>connected := False\<rparr>)"
    by (auto simp: getProvider_no_chain connect_try_provider_fails connect_Inl)
  have m: "\<forall>owner c.
        privateKeyToAccount e (ownerPrivateKey e) = Inr owner
        \<and> (find (\<lambda>x. Some (chain_id x) = cid) (chains e) = Some c
            \<or> find (\<lambda>x. Some (chain_id x) = cid) (chains e) = None \<and> (\<exists>cs. chains e = c # cs)) \<longrightarrow>
        (\<forall>err. toCoinbaseSmartAccount e c owner (ownerIndex e) (csw_address e) = Inl err \<longrightarrow>
            connect e cid st = (\<lparr>accounts = [], chainId = 0\<rparr>, st\<lparr>connected := False\<rparr>))
        \<and> (\<forall>acc. toCoinbaseSmartAccount e c owner (ownerIndex e) (csw_address e) = Inr acc \<longrightarrow>
            (\<exists>t. walletClient (snd (connect e cid st)) =
                    Some \<lparr>account = Some acc, chain = Some c, transport = t\<rparr>)
            \<and> emitted (snd (connect e cid st)) = emitted st
            \<and> (if chain_id c \<noteq> 0 \<and> (cid = None \<or> cid = Some 0 \<or> cid = Some (chain_id c))
               then fst (connect e cid st) =
                      \<lparr>accounts = (if address acc = [] then [] else [address acc]),
                       chainId = chain_id c\<rparr>
                    \<and> connected (snd (connect e cid st)) = True
               else fst (connect e cid st) = \<lparr>accounts = [], chainId = 0\<rparr>
                    \<and> connected (snd (connect e cid st)) = False))"
  proof (intro allI impI, elim conjE)
    fix owner c
    assume owner: "privateKeyToAccount e (ownerPrivateKey e) = Inr owner"
      and "find (\<lambda>x. Some (chain_id x) = cid) (chains e) = Some c
            \<or> find (\<lambda>x. Some (chain_id x) = cid) (chains e) = None \<and> (\<exists>cs. chains e = c # cs)"
    then have rc: "resolve_chain (chains e) cid = Some c"
      by (simp add: resolve_chain_Some_iff)
    have fails: "\<forall>err. toCoinbaseSmartAccount e c owner (ownerIndex e) (csw_address e) = Inl err \<longrightarrow>
            connect e cid st = (\<lparr>accounts = [], chainId = 0\<rparr>, st\<lparr>connected := False\<rparr>)"
      by (auto simp: getProvider_account_fails [OF owner rc] connect_try_provider_fails connect_Inl)
    have ok: "\<forall>acc. toCoinbaseSmartAccount e c owner (ownerIndex e) (csw_address e) = Inr acc \<longrightarrow>
            (\<exists>t. walletClient (snd (connect e cid st)) =
                    Some \<lparr>account = Some acc, chain = Some c, transport = t\<rparr>)
            \<and> emitted (snd (connect e cid st)) = emitted st
            \<and> (if chain_id c \<noteq> 0 \<and> (cid = None \<or> cid = Some 0 \<or> cid = Some (chain_id c))
               then fst (connect e cid st) =
                      \<lparr>accounts = (if address acc = [] then [] else [address acc]),
                       chainId = chain_id c\<rparr>
                    \<and> connected (snd (connect e cid st)) = True
               else fst (connect e cid st) = \<lparr>accounts = [], chainId = 0\<rparr>
                    \<and> connected (snd (connect e cid st)) = False)"
    proof (intro allI impI)
      fix acc
      assume acc: "toCoinbaseSmartAccount e c owner (ownerIndex e) (csw_address e) = Inr acc"
      show "(\<exists>t. walletClient (snd (connect e cid st)) =
                    Some \<lparr>account = Some acc, chain = Some c, transport = t\<rparr>)
            \<and> emitted (snd (connect e cid st)) = emitted st
            \<and> (if chain_id c \<noteq> 0 \<and> (cid = None \<or> cid = Some 0 \<or> cid = Some (chain_id c))
               then fst (connect e cid st) =
                      \<lparr>accounts = (if address acc = [] then [] else [address acc]),
                       chainId = chain_id c\<rparr>
                    \<and> connected (snd (connect e cid st)) = True
               else fst (connect e cid st) = \<lparr>accounts = [], chainId = 0\<rparr>
                    \<and> connected (snd (connect e cid st)) = False)"
        unfolding connect_with_provider [OF owner rc acc] by simp
    qed
    from fails ok
    show "(\<forall>err. toCoinbaseSmartAccount e c owner (ownerIndex e) (csw_address e) = Inl err \<longrightarrow>
            connect e cid st = (\<lparr>accounts = [], chainId = 0\<rparr>, st\<lparr>connected := False\<rparr>))
        \<and> (\<forall>acc. toCoinbaseSmartAccount e c owner (ownerIndex e) (csw_address e) = Inr acc \<longrightarrow>
            (\<exists>t. walletClient (snd (connect e cid st)) =
                    Some \<lparr>account = Some acc, chain = Some c, transport = t\<rparr>)
            \<and> emitted (snd (connect e cid st)) = emitted st
            \<and> (if chain_id c \<noteq> 0 \<and> (cid = None \<or> cid = Some 0 \<or> cid = Some (chain_id c))
               then fst (connect e cid st) =
                      \<lparr>accounts = (if address acc = [] then [] else [address acc]),
                       chainId = chain_id c\<rparr>
                    \<and> connected (snd (connect e cid st)) = True
               else fst (connect e cid st) = \<lparr>accounts = [], chainId = 0\<rparr>
                    \<and> connected (snd (connect e cid st)) = False))"
      by blast
  qed
  have a: "\<forall>err st1. getProvider e cid st = (Inl err, st1) \<longrightarrow>
        connect e cid st = (\<lparr>accounts = [], chainId = 0\<rparr>, st1\<lparr>connected := False\<rparr>)"
    by (simp add: connect_try_provider_fails connect_Inl)
  have b: "\<forall>p st1 err. getProvider e cid st = (Inr p, st1) \<and> getChainId st1 = Inl err \<longrightarrow>
        connect e cid st = (\<lparr>accounts = [], chainId = 0\<rparr>, st1\<lparr>connected := False\<rparr>)"
    by (auto simp: connect_try_chainId_fails connect_Inl)
  have c: "\<forall>p st1 cur n err st2.
        getProvider e cid st = (Inr p, st1) \<and> getChainId st1 = Inr cur \<and> cid = Some n
        \<and> n \<noteq> 0 \<and> cur \<noteq> n \<and> switchChain e n st1 = (Inl err, st2) \<longrightarrow>
        connect e cid st = (\<lparr>accounts = [], chainId = 0\<rparr>, st2\<lparr>connected := False\<rparr>)"
    by (auto simp: connect_try_switch_fails connect_Inl)
  from k n m a b c show ?thesis by blast
qed


theorem connect_swallows_failures_witness:
  "fst (connect demo_env (Some 8453) fresh) = \<lparr>accounts = [''0xC5''], chainId = 8453\<rparr>
   \<and> connected (snd (connect demo_env (Some 8453) fresh)) = True
   \<and> fst (connect demo_env (Some 1) fresh) = \<lparr>accounts = [], chainId = 0\<rparr>
   \<and> connected (snd (connect demo_env (Some 1) fresh)) = False
   \<and> connect zero_env None fresh =
       (\<lparr>accounts = [], chainId = 0\<rparr>,
        \<lparr>connected = False,
         walletClient = Some \<lparr>account = Some demo_account, chain = Some zero_chain, transport = ''http''\<rparr>,
         emitted = []\<rparr>)"
proof -
  have owner: "privateKeyToAccount demo_env (ownerPrivateKey demo_env) = Inr ''0x0A''"
    by (simp add: demo_env_def)
  have acc: "toCoinbaseSmartAccount demo_env base_chain ''0x0A'' (ownerIndex demo_env)
      (csw_address demo_env) = Inr demo_account"
    by (simp add: demo_env_def demo_account_def)
  have listed: "find (\<lambda>x. Some (chain_id x) = Some 8453) (chains demo_env) = Some base_chain"
    by (simp add: chains_demo base_chain_def)
  have unlisted: "find (\<lambda>x. Some (chain_id x) = Some 1) (chains demo_env) = None
      \<and> (\<exists>cs. chains demo_env = base_chain # cs)"
    by (simp add: chains_demo base_chain_def)
  have id: "chain_id base_chain = 8453" and ad: "address demo_account = ''0xC5''"
    by (simp_all add: base_chain_def demo_account_def)
  from connect_swallows_failures [of demo_env "Some 8453" fresh] owner listed acc
  have "if chain_id base_chain \<noteq> 0
          \<and> (Some (8453::nat) = None \<or> Some (8453::nat) = Some 0 \<or> Some 8453 = Some (chain_id base_chain))
        then fst (connect demo_env (Some 8453) fresh) =
               \<lparr>accounts = (if address demo_account = [] then [] else [address demo_account]),
                chainId = chain_id base_chain\<rparr>
             \<and> connected (snd (connect demo_env (Some 8453) fresh)) = True
        else fst (connect demo_env (Some 8453) fresh) = \<lparr>accounts = [], chainId = 0\<rparr>
             \<and> connected (snd (connect demo_env (Some 8453) fresh)) = False"
    by blast
  then have a: "fst (connect demo_env (Some 8453) fresh) = \<lparr>accounts = [''0xC5''], chainId = 8453\<rparr>
      \<and> connected (snd (connect demo_env (Some 8453) fresh)) = True"
    by (simp add: id ad)
  from connect_swallows_failures [of demo_env "Some 1" fresh] owner unlisted acc
  have "if chain_id base_chain \<noteq> 0
          \<and> (Some (1::nat) = None \<or> Some (1::nat) = Some 0 \<or> Some 1 = Some (chain_id base_chain))
        then fst (connect demo_env (Some 1) fresh) =
               \<lparr>accounts = (if address demo_account = [] then [] else [address demo_account]),
                chainId = chain_id base_chain\<rparr>
             \<and> connected (snd (connect demo_env (Some 1) fresh)) = True
        else fst (connect demo_env (Some 1) fresh) = \<lparr>accounts = [], chainId = 0\<rparr>
             \<and> connected (snd (connect demo_env (Some 1) fresh)) = False"
    by blast
  then have b: "fst (connect demo_env (Some 1) fresh) = \<lparr>accounts = [], chainId = 0\<rparr>
      \<and> connected (snd (connect demo_env (Some 1) fresh)) = False"
    by (simp add: id)
  let ?z = "fresh\<lparr>walletClient :=
      Some \<lparr>account = Some demo_account, chain = Some zero_chain, transport = ''http''\<rparr>\<rparr>"
  have gz: "getProvider zero_env None fresh =
      (Inr \<lparr>p_walletClient = \<lparr>account = Some demo_account, chain = Some zero_chain, transport = ''http''\<rparr>,
           p_account = demo_account, p_ownerAccount = ''0x0A'', p_chain = zero_chain\<rparr>, ?z)"
    by (rule getProvider_zero)
  have cz: "getChainId ?z = Inl NotConnected"
    by (simp add: getChainId_def zero_chain_def)
  from connect_swallows_failures [of zero_env None fresh] gz cz
  have "connect zero_env None fresh = (\<lparr>accounts = [], chainId = 0\<rparr>, ?z\<lparr>connected := False\<rparr>)"
    by blast
  then have c: "connect zero_env None fresh =
       (\<lparr>accounts = [], chainId = 0\<rparr>,
        \<lparr>connected = False,
         walletClient = Some \<lparr>account = Some demo_account, chain = Some zero_chain, transport = ''http''\<rparr>,
         emitted = []\<rparr>)"
    by (simp add: fresh_def)
  from a b c show ?thesis by simp
qed

subsection \<open>The chain allow-list\<close>

lemma getProvider_Inr_emitted: "getProvider e cid st = (Inr p, st1) \<Longrightarrow> emitted st1 = emitted st"
  by (auto dest!: getProvider_Inr)

lemma switchChain_provider_fails:
  "getProvider e (Some n) st = (Inl err, st1) \<Longrightarrow> switchChain e n st = (Inl err, st)"
  by (auto simp: switchChain_def dest: getProvider_Inl)

lemma switchChain_listed:
  assumes "find (\<lambda>x. chain_id x = n) (chains e) = Some c"
    and "getProvider e (Some n) st = (Inr p, st1)"
  shows "n \<le> 9007199254740991 \<Longrightarrow>
           switchChain e n st =
             (Inr c, st1\<lparr>emitted := emitted st @ [Change_chainId (js_Number e (''0x'' @ hex_digits n))]\<rparr>)"
    and "n > 9007199254740991 \<Longrightarrow> switchChain e n st = (Inl IntegerOutOfRangeError, st1)"
    and "walletClient st1 = Some (p_walletClient p)"
    and "chain (p_walletClient p) = Some c"
proof -
  from assms(2) obtain c' where rc: "resolve_chain (chains e) (Some n) = Some c'"
    and wc: "chain (p_walletClient p) = Some c'"
    and s1: "st1 = st\<lparr>walletClient := Some (p_walletClient p)\<rparr>"
    by (auto dest!: getProvider_Inr)
  from assms(1) rc have "c' = c" by (simp add: resolve_chain_listed)
  with wc show "chain (p_walletClient p) = Some c" by simp
  from s1 show "walletClient st1 = Some (p_walletClient p)" by simp
  from assms s1 show "n \<le> 9007199254740991 \<Longrightarrow>
           switchChain e n st =
             (Inr c, st1\<lparr>emitted := emitted st @ [Change_chainId (js_Number e (''0x'' @ hex_digits n))]\<rparr>)"
    by (simp add: switchChain_def onChainChanged_def numberToHex_def MAX_SAFE_INTEGER_def)
  from assms show "n > 9007199254740991 \<Longrightarrow> switchChain e n st = (Inl IntegerOutOfRangeError, st1)"
    by (simp add: switchChain_def numberToHex_def MAX_SAFE_INTEGER_def)
qed

lemma switchChain_unlisted:
  assumes "find (\<lambda>x. chain_id x = n) (chains e) = None"
  shows "\<exists>err. fst (switchChain e n st) = Inl err"
    and "emitted (snd (switchChain e n st)) = emitted st"
proof -
  obtain r st1 where g: "getProvider e (Some n) st = (r, st1)" by (cases "getProvider e (Some n) st")
  show "\<exists>err. fst (switchChain e n st) = Inl err"
    using g assms by (cases r) (simp_all add: switchChain_def)
  show "emitted (snd (switchChain e n st)) = emitted st"
  proof (cases r)
    case (Inl err)
    with g show ?thesis by (simp add: switchChain_provider_fails)
  next
    case (Inr p)
    with g assms have "switchChain e n st = (Inl (SwitchChainError ChainNotConfiguredError), st1)"
      by (simp add: switchChain_unlisted_after)
    moreover from g Inr have "emitted st1 = emitted st" by (simp add: getProvider_Inr_emitted)
    ultimately show ?thesis by simp
  qed
qed

lemma hex_digits_8453: "hex_digits 8453 = ''2105''"
  by (simp add: hex_digits.simps hex_digit_def)

text \<open>
  C7, as the claim states it, fails. With Base as the only configured chain, building the
  provider for chain id 1, which is not listed, succeeds on Base; \<^verbatim>\<open>switchChain\<close> to 1
  fails with \<^verbatim>\<open>SwitchChainError\<close> wrapping \<^verbatim>\<open>ChainNotConfigured\<close>. With a listed chain of id
  \<open>2^53\<close>, \<^verbatim>\<open>switchChain\<close> to it fails in \<^verbatim>\<open>numberToHex\<close> and emits nothing. Where the
  smart account cannot be derived, \<^verbatim>\<open>switchChain\<close> fails with the derivation's error, for a
  listed and for an unlisted id.
\<close>

theorem getProvider_unlisted_counterexample:
  "(1::nat) \<notin> set (map chain_id (chains demo_env))
   \<and> getProvider demo_env (Some 1) fresh =
       (Inr demo_provider, fresh\<lparr>walletClient := Some demo_client\<rparr>)
   \<and> chain demo_client = Some base_chain
   \<and> fst (switchChain demo_env 1 fresh) = Inl (SwitchChainError ChainNotConfiguredError)
   \<and> map chain_id (chains big_env) = [9007199254740992]
   \<and> fst (switchChain big_env 9007199254740992 fresh) = Inl IntegerOutOfRangeError
   \<and> emitted (snd (switchChain big_env 9007199254740992 fresh)) = []
   \<and> map chain_id (chains failing_env) = [8453]
   \<and> switchChain failing_env 8453 fresh = (Inl (ExternalError ''rpc''), fresh)
   \<and> switchChain failing_env 1 fresh = (Inl (ExternalError ''rpc''), fresh)"
proof -
  have gf: "\<And>cid. getProvider failing_env cid fresh = (Inl (ExternalError ''rpc''), fresh)"
    by (simp add: getProvider_def failing_env_def demo_env_def resolve_chain_def
        split: option.splits)
  have fl: "map chain_id (chains failing_env) = [8453]
      \<and> switchChain failing_env 8453 fresh = (Inl (ExternalError ''rpc''), fresh)
      \<and> switchChain failing_env 1 fresh = (Inl (ExternalError ''rpc''), fresh)"
    using switchChain_provider_fails [OF gf [of "Some 8453"]]
      switchChain_provider_fails [OF gf [of "Some 1"]]
    by (simp add: failing_env_def demo_env_def base_chain_def)
  have g: "\<exists>p st1. getProvider big_env (Some 9007199254740992) fresh = (Inr p, st1) \<and> emitted st1 = []"
    by (simp add: getProvider_def big_env_def demo_env_def resolve_chain_def Let_def fresh_def
        big_chain_def)
  then obtain p st1 where g': "getProvider big_env (Some 9007199254740992) fresh = (Inr p, st1)"
    and e1: "emitted st1 = []" by blast
  have "switchChain big_env 9007199254740992 fresh = (Inl IntegerOutOfRangeError, st1)"
    using g' by (simp add: switchChain_def big_env_def big_chain_def numberToHex_def
        MAX_SAFE_INTEGER_def)
  with e1 have big: "fst (switchChain big_env 9007199254740992 fresh) = Inl IntegerOutOfRangeError
      \<and> emitted (snd (switchChain big_env 9007199254740992 fresh)) = []"
    by simp
  have ids: "(1::nat) \<notin> set (map chain_id (chains demo_env))
      \<and> map chain_id (chains big_env) = [9007199254740992]"
    by (simp add: chains_demo base_chain_def big_env_def big_chain_def)
  have gp: "getProvider demo_env (Some 1) fresh =
       (Inr demo_provider, fresh\<lparr>walletClient := Some demo_client\<rparr>)"
    by (rule getProvider_demo)
  have ch: "chain demo_client = Some base_chain"
    by (simp add: demo_client_def)
  have sw: "fst (switchChain demo_env 1 fresh) = Inl (SwitchChainError ChainNotConfiguredError)"
    by (simp only: switchChain_demo_unlisted fst_conv)
  from ids gp ch sw big fl show ?thesis by blast
qed


text \<open>
  C7, amended. For a chain id that is not in the allow-list, provider construction fails
  with \<^verbatim>\<open>ChainNotConfigured\<close> only when the allow-list is empty; otherwise it resolves to the
  first configured chain, and succeeds or fails as the smart-account derivation on that
  chain does. \<^verbatim>\<open>switchChain\<close> to an unlisted id always fails and emits no chain-changed
  notification: with \<^verbatim>\<open>ChainNotConfigured\<close> wrapped in \<^verbatim>\<open>SwitchChainError\<close> when its provider
  construction succeeded, with the construction's error otherwise. For a listed id,
  \<^verbatim>\<open>switchChain\<close> re-derives the provider; if that succeeds and the id is at most
  \<^verbatim>\<open>Number.MAX_SAFE_INTEGER\<close>, it emits exactly one chain-changed notification and returns
  the listed chain; above that bound \<^verbatim>\<open>numberToHex\<close> throws and nothing is emitted; if the
  construction fails, \<^verbatim>\<open>switchChain\<close> fails with the same error and emits nothing.
\<close>

theorem switchChain_allow_list:
  "(find (\<lambda>x. Some (chain_id x) = cid) (chains e) = None \<longrightarrow>
      (\<forall>owner. privateKeyToAccount e (ownerPrivateKey e) = Inr owner \<and> chains e = [] \<longrightarrow>
          getProvider e cid st = (Inl ChainNotConfiguredError, st))
      \<and> (\<forall>c0 cs owner acc.
            chains e = c0 # cs \<and> privateKeyToAccount e (ownerPrivateKey e) = Inr owner
            \<and> toCoinbaseSmartAccount e c0 owner (ownerIndex e) (csw_address e) = Inr acc \<longrightarrow>
            (\<exists>p. getProvider e cid st = (Inr p, st\<lparr>walletClient := Some (p_walletClient p)\<rparr>)
                 \<and> chain (p_walletClient p) = Some c0 \<and> account (p_walletClient p) = Some acc))
      \<and> (\<forall>c0 cs owner err.
            chains e = c0 # cs \<and> privateKeyToAccount e (ownerPrivateKey e) = Inr owner
            \<and> toCoinbaseSmartAccount e c0 owner (ownerIndex e) (csw_address e) = Inl err \<longrightarrow>
            getProvider e cid st = (Inl err, st)))
   \<and> (find (\<lambda>x. chain_id x = n) (chains e) = None \<longrightarrow>
        (\<exists>err. fst (switchChain e n st) = Inl err)
        \<and> emitted (snd (switchChain e n st)) = emitted st
        \<and> (\<forall>p st1. getProvider e (Some n) st = (Inr p, st1) \<longrightarrow>
              fst (switchChain e n st) = Inl (SwitchChainError ChainNotConfiguredError))
        \<and> (\<forall>err st1. getProvider e (Some n) st = (Inl err, st1) \<longrightarrow>
              fst (switchChain e n st) = Inl err))
   \<and> (\<forall>c. find (\<lambda>x. chain_id x = n) (chains e) = Some c \<longrightarrow>
        (\<forall>p st1. getProvider e (Some n) st = (Inr p, st1) \<longrightarrow>
            walletClient st1 = Some (p_walletClient p) \<and> chain (p_walletClient p) = Some c
            \<and> (n \<le> 9007199254740991 \<longrightarrow>
                 switchChain e n st =
                   (Inr c, st1\<lparr>emitted := emitted st @
                                 [Change_chainId (js_Number e (''0x'' @ hex_digits n))]\<rparr>))
            \<and> (n > 9007199254740991 \<longrightarrow>
                 switchChain e n st = (Inl IntegerOutOfRangeError, st1)
                 \<and> emitted st1 = emitted st))
        \<and> (\<forall>err st1. getProvider e (Some n) st = (Inl err, st1) \<longrightarrow>
              switchChain e n st = (Inl err, st)))"
proof -
  have a: "find (\<lambda>x. Some (chain_id x) = cid) (chains e) = None \<longrightarrow>
      (\<forall>owner. privateKeyToAccount e (ownerPrivateKey e) = Inr owner \<and> chains e = [] \<longrightarrow>
          getProvider e cid st = (Inl ChainNotConfiguredError, st))
      \<and> (\<forall>c0 cs owner acc.
            chains e = c0 # cs \<and> privateKeyToAccount e (ownerPrivateKey e) = Inr owner
            \<and> toCoinbaseSmartAccount e c0 owner (ownerIndex e) (csw_address e) = Inr acc \<longrightarrow>
            (\<exists>p. getProvider e cid st = (Inr p, st\<lparr>walletClient := Some (p_walletClient p)\<rparr>)
                 \<and> chain (p_walletClient p) = Some c0 \<and> account (p_walletClient p) = Some acc))
      \<and> (\<forall>c0 cs owner err.
            chains e = c0 # cs \<and> privateKeyToAccount e (ownerPrivateKey e) = Inr owner
            \<and> toCoinbaseSmartAccount e c0 owner (ownerIndex e) (csw_address e) = Inl err \<longrightarrow>
            getProvider e cid st = (Inl err, st))"
  proof (intro impI conjI allI)
    fix owner
    assume "privateKeyToAccount e (ownerPrivateKey e) = Inr owner \<and> chains e = []"
    then show "getProvider e cid st = (Inl ChainNotConfiguredError, st)"
      by (simp add: getProvider_no_chain)
  next
    fix c0 cs owner acc
    assume u: "find (\<lambda>x. Some (chain_id x) = cid) (chains e) = None"
      and h: "chains e = c0 # cs \<and> privateKeyToAccount e (ownerPrivateKey e) = Inr owner
            \<and> toCoinbaseSmartAccount e c0 owner (ownerIndex e) (csw_address e) = Inr acc"
    from u h have rc: "resolve_chain (chains e) cid = Some c0"
      by (simp add: resolve_chain_Some_iff)
    from h have o: "privateKeyToAccount e (ownerPrivateKey e) = Inr owner"
      and a: "toCoinbaseSmartAccount e c0 owner (ownerIndex e) (csw_address e) = Inr acc" by simp_all
    show "\<exists>p. getProvider e cid st = (Inr p, st\<lparr>walletClient := Some (p_walletClient p)\<rparr>)
                 \<and> chain (p_walletClient p) = Some c0 \<and> account (p_walletClient p) = Some acc"
      by (simp add: getProvider_succeeds [OF o rc a])
  next
    fix c0 cs owner err
    assume u: "find (\<lambda>x. Some (chain_id x) = cid) (chains e) = None"
      and h: "chains e = c0 # cs \<and> privateKeyToAccount e (ownerPrivateKey e) = Inr owner
            \<and> toCoinbaseSmartAccount e c0 owner (ownerIndex e) (csw_address e) = Inl err"
    from u h have rc: "resolve_chain (chains e) cid = Some c0"
      by (simp add: resolve_chain_Some_iff)
    from h have o: "privateKeyToAccount e (ownerPrivateKey e) = Inr owner"
      and a: "toCoinbaseSmartAccount e c0 owner (ownerIndex e) (csw_address e) = Inl err" by simp_all
    show "getProvider e cid st = (Inl err, st)"
      by (rule getProvider_account_fails [OF o rc a])
  qed
  have b: "find (\<lambda>x. chain_id x = n) (chains e) = None \<longrightarrow>
        (\<exists>err. fst (switchChain e n st) = Inl err)
        \<and> emitted (snd (switchChain e n st)) = emitted st
        \<and> (\<forall>p st1. getProvider e (Some n) st = (Inr p, st1) \<longrightarrow>
              fst (switchChain e n st) = Inl (SwitchChainError ChainNotConfiguredError))
        \<and> (\<forall>err st1. getProvider e (Some n) st = (Inl err, st1) \<longrightarrow>
              fst (switchChain e n st) = Inl err)"
  proof (intro impI conjI allI)
    assume u: "find (\<lambda>x. chain_id x = n) (chains e) = None"
    from switchChain_unlisted [OF u, of st]
    show "\<exists>err. fst (switchChain e n st) = Inl err"
      and "emitted (snd (switchChain e n st)) = emitted st" by simp_all
    fix p st1
    assume "getProvider e (Some n) st = (Inr p, st1)"
    from switchChain_unlisted_after [OF this u]
    show "fst (switchChain e n st) = Inl (SwitchChainError ChainNotConfiguredError)" by simp
  next
    fix err st1
    assume "getProvider e (Some n) st = (Inl err, st1)"
    from switchChain_provider_fails [OF this]
    show "fst (switchChain e n st) = Inl err" by simp
  qed
  have c: "\<forall>c. find (\<lambda>x. chain_id x = n) (chains e) = Some c \<longrightarrow>
        (\<forall>p st1. getProvider e (Some n) st = (Inr p, st1) \<longrightarrow>
            walletClient st1 = Some (p_walletClient p) \<and> chain (p_walletClient p) = Some c
            \<and> (n \<le> 9007199254740991 \<longrightarrow>
                 switchChain e n st =
                   (Inr c, st1\<lparr>emitted := emitted st @
                                 [Change_chainId (js_Number e (''0x'' @ hex_digits n))]\<rparr>))
            \<and> (n > 9007199254740991 \<longrightarrow>
                 switchChain e n st = (Inl IntegerOutOfRangeError, st1)
                 \<and> emitted st1 = emitted st))
        \<and> (\<forall>err st1. getProvider e (Some n) st = (Inl err, st1) \<longrightarrow>
              switchChain e n st = (Inl err, st))"
  proof (intro impI conjI allI)
    fix c p st1
    assume l: "find (\<lambda>x. chain_id x = n) (chains e) = Some c"
      and g: "getProvider e (Some n) st = (Inr p, st1)"
    note L = switchChain_listed [OF l g]
    from L(3) show "walletClient st1 = Some (p_walletClient p)" .
    from L(4) show "chain (p_walletClient p) = Some c" .
    { assume "n \<le> 9007199254740991"
      from L(1) [OF this]
      show "switchChain e n st =
                   (Inr c, st1\<lparr>emitted := emitted st @
                                 [Change_chainId (js_Number e (''0x'' @ hex_digits n))]\<rparr>)" . }
    { assume "n > 9007199254740991"
      from L(2) [OF this]
      show "switchChain e n st = (Inl IntegerOutOfRangeError, st1)" . }
    from g show "emitted st1 = emitted st" by (rule getProvider_Inr_emitted)
  next
    fix c err st1
    assume "getProvider e (Some n) st = (Inl err, st1)"
    then show "switchChain e n st = (Inl err, st)" by (rule switchChain_provider_fails)
  qed
  from a b c show ?thesis by blast
qed

theorem switchChain_allow_list_witness:
  "fst (switchChain demo_env 1 fresh) = Inl (SwitchChainError ChainNotConfiguredError)
   \<and> emitted (snd (switchChain demo_env 1 fresh)) = []
   \<and> switchChain demo_env 8453 fresh =
     (Inr base_chain,
      \<lparr>connected = True, walletClient = Some demo_client, emitted = [Change_chainId (Num 8453)]\<rparr>)"
proof -
  have f1: "find (\<lambda>x. chain_id x = 1) (chains demo_env) = None"
    by (simp add: chains_demo base_chain_def)
  have f2: "find (\<lambda>x. chain_id x = 8453) (chains demo_env) = Some base_chain"
    by (simp add: chains_demo base_chain_def)
  have g1: "getProvider demo_env (Some 1) fresh =
      (Inr demo_provider, fresh\<lparr>walletClient := Some demo_client\<rparr>)"
    by (rule getProvider_demo)
  have g2: "getProvider demo_env (Some 8453) fresh =
      (Inr demo_provider, fresh\<lparr>walletClient := Some demo_client\<rparr>)"
    by (rule getProvider_demo)
  from switchChain_allow_list [where e = demo_env and n = 1 and st = fresh and cid = "Some 1"] f1 g1
  have a: "fst (switchChain demo_env 1 fresh) = Inl (SwitchChainError ChainNotConfiguredError)"
    and b: "emitted (snd (switchChain demo_env 1 fresh)) = emitted fresh"
    by blast+
  have le: "(8453::nat) \<le> 9007199254740991" by simp
  from switchChain_allow_list [where e = demo_env and n = 8453 and st = fresh and cid = "Some 8453"]
    f2 g2 le
  have "switchChain demo_env 8453 fresh =
     (Inr base_chain, (fresh\<lparr>walletClient := Some demo_client\<rparr>)
        \<lparr>emitted := emitted fresh @ [Change_chainId (js_Number demo_env (''0x'' @ hex_digits 8453))]\<rparr>)"
    by blast
  then have c: "switchChain demo_env 8453 fresh =
     (Inr base_chain,
      \<lparr>connected = True, walletClient = Some demo_client, emitted = [Change_chainId (Num 8453)]\<rparr>)"
    by (simp add: fresh_def hex_digits_8453 demo_env_def)
  from b have b': "emitted (snd (switchChain demo_env 1 fresh)) = []"
    by (simp add: fresh_def)
  from a b' c show ?thesis by simp
qed

subsection \<open>Sending a transaction as a user operation\<close>

lemma and_then_pure_Inr [simp]: "and_then (pure (Inr x)) f = f x"
  by (simp add: and_then_def pure_def split: prod.splits)

lemma and_then_pure_Inl [simp]: "and_then (pure (Inl err)) f = (Inl err, [])"
  by (simp add: and_then_def pure_def)

lemma and_then_call_Inr [simp]: "and_then (call_ext ef (Inr x)) f = (fst (f x), ef # snd (f x))"
  by (simp add: and_then_def call_ext_def split: prod.splits)

lemma and_then_call_Inl [simp]: "and_then (call_ext ef (Inl err)) f = (Inl err, [ef])"
  by (simp add: and_then_def call_ext_def)

lemma fst_pure [simp]: "fst (pure r) = r" and snd_pure [simp]: "snd (pure r) = []"
  by (simp_all add: pure_def)




section \<open>Properties of the session bridge\<close>

subsection \<open>When a chain switch is required\<close>








subsection \<open>Traces of the request handler\<close>

lemma and_then_emit [simp]: "and_then (emit efs) f = (fst (f ()), efs @ snd (f ()))"
  by (simp add: and_then_def emit_def split: prod.splits)

lemma snd_and_then:
  "snd (and_then m f) = (case fst m of Inl err \<Rightarrow> snd m | Inr x \<Rightarrow> snd m @ snd (f x))"
  by (cases m) (simp add: and_then_def split: sum.splits prod.splits)

lemma fst_and_then:
  "fst (and_then m f) = (case fst m of Inl err \<Rightarrow> Inl err | Inr x \<Rightarrow> fst (f x))"
  by (cases m) (simp add: and_then_def split: sum.splits prod.splits)

lemma and_then_all:
  "list_all P (snd m) \<Longrightarrow> (\<And>x. list_all P (snd (f x))) \<Longrightarrow> list_all P (snd (and_then m f))"
  by (simp add: snd_and_then split: sum.splits)

lemma pure_all [simp]: "list_all P (snd (pure r))"
  by (simp add: pure_def)

lemma call_ext_all [simp]: "list_all P (snd (call_ext ef r)) = P ef"
  by (simp add: call_ext_def)

lemma emit_all [simp]: "list_all P (snd (emit efs)) = list_all P efs"
  by (simp add: emit_def)

lemma and_then_Inl [simp]: "and_then (Inl err, tr) f = (Inl err, tr)"
  by (simp add: and_then_def)

lemma and_then_Inr: "and_then (Inr x, tr) f = (fst (f x), tr @ snd (f x))"
  by (simp add: and_then_def split: prod.splits)

lemma execute_method_inner:
  "list_all (\<lambda>ef. \<not> is_Respond ef \<and> ef \<noteq> CloseModal) (snd (execute_method e c rq))"
  unfolding execute_method_def send_transaction_branch_def sign_message_branch_def
    sign_typed_data_branch_def switch_chain_branch_def add_chain_branch_def
  by (auto intro!: and_then_all)

lemma execute_method_no_response:
  assumes "execute_method e c rq = (r, tr)"
  shows "filter is_Respond tr = []" and "CloseModal \<notin> set tr"
proof -
  from execute_method_inner [of e c rq] assms
  have "list_all (\<lambda>ef. \<not> is_Respond ef \<and> ef \<noteq> CloseModal) tr" by simp
  then show "filter is_Respond tr = []" and "CloseModal \<notin> set tr"
    by (auto simp: list_all_iff filter_empty_conv)
qed

lemma handleSessionRequest_ready:
  assumes "walletKit c" "has_walletClient c" "currentSessionRequest c = Some sr"
  shows "handleSessionRequest e c approve =
     (case handle_try e c sr approve of
        (Inr u, tr) \<Rightarrow> tr
      | (Inl err, tr) \<Rightarrow>
          tr @ [SetPendingRequest False, SetIsSwitchingChain False,
                SetNeedsChainSwitch False, SetTargetChainId None,
                Notify (ToastError approve (error_message e err))])"
  using assms by (simp add: handleSessionRequest_def)

lemma error_message_revert: "error_message demo_bridge_env revert_error = ''Execution reverted.''"
  by (simp add: error_message_def revert_error_def specific_message_def truthy_text_def
      strip_error_prefix_def demo_bridge_env_def ascii_trim_def is_space_def)

lemma execute_send_session:
  "execute_method demo_bridge_env (demo_ctx send_session) (sr_request send_session) =
     (Inl revert_error,
      [Wallet_sendTransaction \<lparr>tx_account = Some ''0xC5'', tx_to = JStr ''0xAAA'',
         tx_value = Some 1, tx_data = JUndefined, tx_gas = None\<rparr>])"
  by (simp add: execute_method_def send_transaction_branch_def send_session_def demo_session_def
      read_index_def read_prop_def optional_BigInt_def obj_field_def demo_bridge_env_def demo_ctx_def)

subsection \<open>A request that is approved and then fails\<close>

text \<open>
  C2, as the claim states it, fails: an approved \<^verbatim>\<open>eth_sendTransaction\<close> whose
  \<^verbatim>\<open>sendTransaction\<close> call reverts is handled without any call of
  \<^verbatim>\<open>respondSessionRequest\<close>; the handler resets its flags and shows an error toast.
\<close>

theorem approved_failure_counterexample:
  "fst (execute_method demo_bridge_env (demo_ctx send_session) (sr_request send_session)) =
      Inl revert_error
   \<and> handleSessionRequest demo_bridge_env (demo_ctx send_session) True =
      [SetPendingRequest True,
       Wallet_sendTransaction \<lparr>tx_account = Some ''0xC5'', tx_to = JStr ''0xAAA'',
         tx_value = Some 1, tx_data = JUndefined, tx_gas = None\<rparr>,
       SetPendingRequest False, SetIsSwitchingChain False, SetNeedsChainSwitch False,
       SetTargetChainId None, Notify (ToastError True ''Execution reverted.'')]
   \<and> filter is_Respond (handleSessionRequest demo_bridge_env (demo_ctx send_session) True) = []"
proof -
  have r: "walletKit (demo_ctx send_session)" "has_walletClient (demo_ctx send_session)"
    "currentSessionRequest (demo_ctx send_session) = Some send_session"
    by (simp_all add: demo_ctx_def)
  have h: "handleSessionRequest demo_bridge_env (demo_ctx send_session) True =
      [SetPendingRequest True,
       Wallet_sendTransaction \<lparr>tx_account = Some ''0xC5'', tx_to = JStr ''0xAAA'',
         tx_value = Some 1, tx_data = JUndefined, tx_gas = None\<rparr>,
       SetPendingRequest False, SetIsSwitchingChain False, SetNeedsChainSwitch False,
       SetTargetChainId None, Notify (ToastError True ''Execution reverted.'')]"
    by (simp add: handleSessionRequest_ready [OF r] handle_try_def approve_branch_def
        execute_send_session error_message_revert)
  show ?thesis
    unfolding h by (simp add: execute_send_session)
qed

text \<open>
  C2, amended. For a session request that is approved and whose execution fails (the
  method's branch throws), \<^verbatim>\<open>handleSessionRequest\<close> sends no response over the session:
  after the calls the branch made, the \<^verbatim>\<open>catch\<close> block clears \<^verbatim>\<open>pendingRequest\<close>,
  \<^verbatim>\<open>isSwitchingChain\<close>, \<^verbatim>\<open>needsChainSwitch\<close> and \<^verbatim>\<open>targetChainId\<close> and shows an error toast
  carrying the normalized message, and the modal is not closed.
\<close>

theorem approved_failure_gets_no_response:
  assumes "walletKit c" "has_walletClient c" "currentSessionRequest c = Some sr"
    and "execute_method e c (sr_request sr) = (Inl err, tr)"
  shows "handleSessionRequest e c True =
           SetPendingRequest True # tr @
             [SetPendingRequest False, SetIsSwitchingChain False, SetNeedsChainSwitch False,
              SetTargetChainId None, Notify (ToastError True (error_message e err))]
         \<and> filter is_Respond (handleSessionRequest e c True) = []
         \<and> CloseModal \<notin> set (handleSessionRequest e c True)"
proof -
  have t: "handle_try e c sr True = (Inl err, SetPendingRequest True # tr)"
    using assms(4) by (simp add: handle_try_def approve_branch_def)
  have h: "handleSessionRequest e c True =
           SetPendingRequest True # tr @
             [SetPendingRequest False, SetIsSwitchingChain False, SetNeedsChainSwitch False,
              SetTargetChainId None, Notify (ToastError True (error_message e err))]"
    using assms(1-3) t by (simp add: handleSessionRequest_ready)
  from execute_method_no_response [OF assms(4)] h show ?thesis by simp
qed

theorem approved_failure_gets_no_response_witness:
  "handleSessionRequest demo_bridge_env (demo_ctx send_session) True =
      [SetPendingRequest True,
       Wallet_sendTransaction \<lparr>tx_account = Some ''0xC5'', tx_to = JStr ''0xAAA'',
         tx_value = Some 1, tx_data = JUndefined, tx_gas = None\<rparr>,
       SetPendingRequest False, SetIsSwitchingChain False, SetNeedsChainSwitch False,
       SetTargetChainId None, Notify (ToastError True ''Execution reverted.'')]
   \<and> CloseModal \<notin> set (handleSessionRequest demo_bridge_env (demo_ctx send_session) True)"
proof -
  have r: "walletKit (demo_ctx send_session)" "has_walletClient (demo_ctx send_session)"
    "currentSessionRequest (demo_ctx send_session) = Some send_session"
    by (simp_all add: demo_ctx_def)
  from approved_failure_gets_no_response [OF r execute_send_session]
  show ?thesis by (simp add: error_message_revert)
qed

subsection \<open>Rejecting a request\<close>

lemma handleSessionRequest_not_ready:
  "\<not> walletKit c \<or> \<not> has_walletClient c \<Longrightarrow> handleSessionRequest e c approve = []"
  by (auto simp: handleSessionRequest_def)

lemma reject_ready:
  assumes "walletKit c" "has_walletClient c" "currentSessionRequest c = Some sr"
  shows "handleSessionRequest e c False =
           (case respondSessionRequest e (topic sr) (rejection_response sr) of
              Inr u \<Rightarrow> [Respond (topic sr) (rejection_response sr), Notify ToastRejected, CloseModal]
            | Inl err \<Rightarrow>
                [Respond (topic sr) (rejection_response sr), SetPendingRequest False,
                 SetIsSwitchingChain False, SetNeedsChainSwitch False, SetTargetChainId None,
                 Notify (ToastError False (error_message e err))])"
  using assms
  by (simp add: handleSessionRequest_ready handle_try_def reject_branch_def and_then_def
      call_ext_def emit_def split: sum.splits)

text \<open>
  C4, as the claim states it, fails: while wagmi has no wallet client to give, rejecting
  the current request returns at the guard in the first line of the handler and sends no
  response at all.
\<close>

theorem rejection_without_client_counterexample:
  "currentSessionRequest (no_client_ctx send_session) = Some send_session
   \<and> walletKit (no_client_ctx send_session) = True
   \<and> has_walletClient (no_client_ctx send_session) = False
   \<and> handleSessionRequest demo_bridge_env (no_client_ctx send_session) False = []"
  by (simp add: no_client_ctx_def demo_ctx_def handleSessionRequest_def)

text \<open>
  C4, amended. For a session request that is rejected while the bridge holds a WalletKit
  instance and a wallet client, the bridge calls \<^verbatim>\<open>respondSessionRequest\<close> first and exactly
  once, on the request's topic, with
  \<^verbatim>\<open>{id, jsonrpc: "2.0", error: {code: 4001, message: "User rejected the request"}}\<close>.
  When WalletKit or the wallet client is missing, the handler returns at once and sends
  nothing. In every case a rejection makes no wallet-capability call (no transaction,
  signature or chain switch).
\<close>

theorem rejection_answers_4001:
  assumes "currentSessionRequest c = Some sr"
  shows "(walletKit c \<and> has_walletClient c \<longrightarrow>
            handleSessionRequest e c False =
              (case respondSessionRequest e (topic sr)
                      \<lparr>resp_id = sr_id sr, jsonrpc = ''2.0'',
                       outcome = RpcError 4001 ''User rejected the request''\<rparr> of
                 Inr u \<Rightarrow>
                   [Respond (topic sr)
                      \<lparr>resp_id = sr_id sr, jsonrpc = ''2.0'',
                       outcome = RpcError 4001 ''User rejected the request''\<rparr>,
                    Notify ToastRejected, CloseModal]
               | Inl err \<Rightarrow>
                   [Respond (topic sr)
                      \<lparr>resp_id = sr_id sr, jsonrpc = ''2.0'',
                       outcome = RpcError 4001 ''User rejected the request''\<rparr>,
                    SetPendingRequest False, SetIsSwitchingChain False, SetNeedsChainSwitch False,
                    SetTargetChainId None, Notify (ToastError False (error_message e err))])
            \<and> filter is_Respond (handleSessionRequest e c False) =
                [Respond (topic sr)
                   \<lparr>resp_id = sr_id sr, jsonrpc = ''2.0'',
                    outcome = RpcError 4001 ''User rejected the request''\<rparr>])
         \<and> (\<not> walletKit c \<or> \<not> has_walletClient c \<longrightarrow> handleSessionRequest e c False = [])
         \<and> filter is_wallet_call (handleSessionRequest e c False) = []"
proof (cases "walletKit c \<and> has_walletClient c")
  case True
  then have h: "handleSessionRequest e c False =
           (case respondSessionRequest e (topic sr) (rejection_response sr) of
              Inr u \<Rightarrow> [Respond (topic sr) (rejection_response sr), Notify ToastRejected, CloseModal]
            | Inl err \<Rightarrow>
                [Respond (topic sr) (rejection_response sr), SetPendingRequest False,
                 SetIsSwitchingChain False, SetNeedsChainSwitch False, SetTargetChainId None,
                 Notify (ToastError False (error_message e err))])"
    using assms by (simp add: reject_ready)
  from True show ?thesis
    unfolding h by (simp add: rejection_response_def split: sum.splits)
next
  case False
  then have "handleSessionRequest e c False = []"
    by (simp add: handleSessionRequest_not_ready)
  with False show ?thesis by auto
qed

theorem rejection_answers_4001_witness:
  "handleSessionRequest demo_bridge_env (demo_ctx send_session) False =
     [Respond ''t0'' \<lparr>resp_id = 42, jsonrpc = ''2.0'',
        outcome = RpcError 4001 ''User rejected the request''\<rparr>,
      Notify ToastRejected, CloseModal]
   \<and> handleSessionRequest demo_bridge_env (no_client_ctx send_session) False = []"
proof -
  have r: "currentSessionRequest (demo_ctx send_session) = Some send_session"
    and k: "walletKit (demo_ctx send_session) \<and> has_walletClient (demo_ctx send_session)"
    by (simp_all add: demo_ctx_def)
  from rejection_answers_4001 [OF r, of demo_bridge_env] k
  have "handleSessionRequest demo_bridge_env (demo_ctx send_session) False =
      (case respondSessionRequest demo_bridge_env (topic send_session)
              \<lparr>resp_id = sr_id send_session, jsonrpc = ''2.0'',
               outcome = RpcError 4001 ''User rejected the request''\<rparr> of
         Inr u \<Rightarrow>
           [Respond (topic send_session)
              \<lparr>resp_id = sr_id send_session, jsonrpc = ''2.0'',
               outcome = RpcError 4001 ''User rejected the request''\<rparr>,
            Notify ToastRejected, CloseModal]
       | Inl err \<Rightarrow>
           [Respond (topic send_session)
              \<lparr>resp_id = sr_id send_session, jsonrpc = ''2.0'',
               outcome = RpcError 4001 ''User rejected the request''\<rparr>,
            SetPendingRequest False, SetIsSwitchingChain False, SetNeedsChainSwitch False,
            SetTargetChainId None, Notify (ToastError False (error_message demo_bridge_env err))])"
    by blast
  then have a: "handleSessionRequest demo_bridge_env (demo_ctx send_session) False =
     [Respond ''t0'' \<lparr>resp_id = 42, jsonrpc = ''2.0'',
        outcome = RpcError 4001 ''User rejected the request''\<rparr>,
      Notify ToastRejected, CloseModal]"
    by (simp add: demo_bridge_env_def send_session_def demo_session_def)
  have r2: "currentSessionRequest (no_client_ctx send_session) = Some send_session"
    and k2: "\<not> has_walletClient (no_client_ctx send_session)"
    by (simp_all add: no_client_ctx_def demo_ctx_def)
  from rejection_answers_4001 [OF r2, of demo_bridge_env] k2
  have b: "handleSessionRequest demo_bridge_env (no_client_ctx send_session) False = []"
    by blast
  from a b show ?thesis by simp
qed

subsection \<open>Adding a chain\<close>

lemma js_get_defined:
  "p \<noteq> JUndefined \<Longrightarrow> p \<noteq> JNull \<Longrightarrow> \<exists>v. js_get p k = Inr v"
  by (cases p) simp_all

lemma add_chain_branch_defined:
  assumes "js_index (rpc_params rq) 0 = Inr p"
    and "js_get p ''chainName'' = Inr name" and "js_get p ''chainId'' = Inr cid"
  shows "add_chain_branch e rq = (Inr JNull, [Notify (ToastAddChain name cid)])"
  using assms by (simp add: add_chain_branch_def read_index_def read_prop_def)

lemma add_chain_branch_no_wallet_call:
  "list_all (\<lambda>ef. \<not> is_wallet_call ef) (snd (add_chain_branch e rq))"
  unfolding add_chain_branch_def by (auto intro!: and_then_all)

lemma add_chain_no_wallet_call:
  assumes "rpc_method (sr_request sr) = ''wallet_addEthereumChain''"
  shows "list_all (\<lambda>ef. \<not> is_wallet_call ef) (snd (handle_try e c sr True))"
proof -
  have x: "execute_method e c (sr_request sr) = add_chain_branch e (sr_request sr)"
    using assms by (simp add: execute_method_def)
  show ?thesis
    unfolding handle_try_def approve_branch_def x
    by (auto intro!: and_then_all simp: add_chain_branch_no_wallet_call)
qed

lemma execute_bare_add_chain:
  "execute_method demo_bridge_env c (sr_request bare_add_chain_session) =
     (Inl \<lparr>thrown_string = ''TypeError: Cannot read properties of undefined'', walk = None\<rparr>, [])"
  by (simp add: execute_method_def add_chain_branch_def bare_add_chain_session_def
      demo_session_def read_index_def read_prop_def type_error_def demo_bridge_env_def)

text \<open>
  C9, as the claim states it, fails: an approved \<^verbatim>\<open>wallet_addEthereumChain\<close> request with
  an empty parameter list throws at the read of \<^verbatim>\<open>chainParams.chainName\<close>, and the
  \<^verbatim>\<open>catch\<close> block sends no response; and while there is no wallet client, approving the
  request does nothing at all.
\<close>

theorem add_chain_counterexample:
  "rpc_method (sr_request bare_add_chain_session) = ''wallet_addEthereumChain''
   \<and> rpc_params (sr_request bare_add_chain_session) = JArr []
   \<and> handleSessionRequest demo_bridge_env (demo_ctx bare_add_chain_session) True =
       [SetPendingRequest True, SetPendingRequest False, SetIsSwitchingChain False,
        SetNeedsChainSwitch False, SetTargetChainId None,
        Notify (ToastError True ''TypeError: Cannot read properties of undefined'')]
   \<and> filter is_Respond (handleSessionRequest demo_bridge_env (demo_ctx bare_add_chain_session) True) = []
   \<and> handleSessionRequest demo_bridge_env (no_client_ctx add_chain_session) True = []"
proof -
  have r: "walletKit (demo_ctx bare_add_chain_session)"
    "has_walletClient (demo_ctx bare_add_chain_session)"
    "currentSessionRequest (demo_ctx bare_add_chain_session) = Some bare_add_chain_session"
    by (simp_all add: demo_ctx_def)
  have h: "handleSessionRequest demo_bridge_env (demo_ctx bare_add_chain_session) True =
       [SetPendingRequest True, SetPendingRequest False, SetIsSwitchingChain False,
        SetNeedsChainSwitch False, SetTargetChainId None,
        Notify (ToastError True ''TypeError: Cannot read properties of undefined'')]"
    by (simp add: handleSessionRequest_ready [OF r] handle_try_def approve_branch_def
        execute_bare_add_chain error_message_def)
  have n: "handleSessionRequest demo_bridge_env (no_client_ctx add_chain_session) True = []"
    by (simp add: no_client_ctx_def demo_ctx_def handleSessionRequest_def)
  have m: "rpc_method (sr_request bare_add_chain_session) = ''wallet_addEthereumChain''
      \<and> rpc_params (sr_request bare_add_chain_session) = JArr []"
    by (simp add: bare_add_chain_session_def demo_session_def)
  show ?thesis
    unfolding h using m n by simp
qed

text \<open>
  C9, amended. An approved \<^verbatim>\<open>wallet_addEthereumChain\<close> request never makes a
  wallet-capability call, so the wallet's chain configuration and active chain are left
  unchanged. When the bridge holds a WalletKit instance and a wallet client and the
  request's first parameter is neither \<^verbatim>\<open>undefined\<close> nor \<^verbatim>\<open>null\<close>, the handler shows a
  toast naming the chain and responds on the request's topic with
  \<^verbatim>\<open>{id, jsonrpc: "2.0", result: null}\<close>, its only response. When WalletKit or the wallet
  client is missing, the handler returns at once and sends nothing.
\<close>

theorem add_chain_is_acknowledged_only:
  assumes "currentSessionRequest c = Some sr"
    and "rpc_method (sr_request sr) = ''wallet_addEthereumChain''"
  shows "filter is_wallet_call (handleSessionRequest e c True) = []
         \<and> (walletKit c \<and> has_walletClient c \<longrightarrow>
          (\<forall>p. js_index (rpc_params (sr_request sr)) 0 = Inr p \<and> p \<noteq> JUndefined \<and> p \<noteq> JNull \<longrightarrow>
             (\<exists>name cid.
                js_get p ''chainName'' = Inr name \<and> js_get p ''chainId'' = Inr cid
                \<and> handleSessionRequest e c True =
                    SetPendingRequest True
                    # Notify (ToastAddChain name cid)
                    # Respond (topic sr) \<lparr>resp_id = sr_id sr, jsonrpc = ''2.0'', outcome = RpcResult JNull\<rparr>
                    # (case respondSessionRequest e (topic sr) \<lparr>resp_id = sr_id sr, jsonrpc = ''2.0'', outcome = RpcResult JNull\<rparr> of
                         Inr u \<Rightarrow> [SetPendingRequest False, SetNeedsChainSwitch False,
                                   SetTargetChainId None,
                                   Notify (ToastApproved ''wallet_addEthereumChain''), CloseModal]
                       | Inl err \<Rightarrow> [SetPendingRequest False, SetIsSwitchingChain False,
                                     SetNeedsChainSwitch False, SetTargetChainId None,
                                     Notify (ToastError True (error_message e err))]))
             \<and> filter is_Respond (handleSessionRequest e c True) =
                 [Respond (topic sr) \<lparr>resp_id = sr_id sr, jsonrpc = ''2.0'', outcome = RpcResult JNull\<rparr>]))
         \<and> (\<not> walletKit c \<or> \<not> has_walletClient c \<longrightarrow> handleSessionRequest e c True = [])"
proof -
  have A: "filter is_wallet_call (handleSessionRequest e c True) = []"
  proof (cases "walletKit c \<and> has_walletClient c")
    case False
    then show ?thesis by (simp add: handleSessionRequest_not_ready)
  next
    case True
    obtain r tr where t: "handle_try e c sr True = (r, tr)" by (cases "handle_try e c sr True")
    with add_chain_no_wallet_call [OF assms(2), of e c]
    have "list_all (\<lambda>ef. \<not> is_wallet_call ef) tr" by simp
    then have "filter is_wallet_call tr = []"
      by (auto simp: list_all_iff filter_empty_conv)
    with True assms(1) t show ?thesis
      by (cases r) (simp_all add: handleSessionRequest_ready)
  qed
  have Bp: "walletKit c \<and> has_walletClient c \<longrightarrow>
          (\<forall>p. js_index (rpc_params (sr_request sr)) 0 = Inr p \<and> p \<noteq> JUndefined \<and> p \<noteq> JNull \<longrightarrow>
             (\<exists>name cid.
                js_get p ''chainName'' = Inr name \<and> js_get p ''chainId'' = Inr cid
                \<and> handleSessionRequest e c True =
                    SetPendingRequest True
                    # Notify (ToastAddChain name cid)
                    # Respond (topic sr) \<lparr>resp_id = sr_id sr, jsonrpc = ''2.0'', outcome = RpcResult JNull\<rparr>
                    # (case respondSessionRequest e (topic sr) \<lparr>resp_id = sr_id sr, jsonrpc = ''2.0'', outcome = RpcResult JNull\<rparr> of
                         Inr u \<Rightarrow> [SetPendingRequest False, SetNeedsChainSwitch False,
                                   SetTargetChainId None,
                                   Notify (ToastApproved ''wallet_addEthereumChain''), CloseModal]
                       | Inl err \<Rightarrow> [SetPendingRequest False, SetIsSwitchingChain False,
                                     SetNeedsChainSwitch False, SetTargetChainId None,
                                     Notify (ToastError True (error_message e err))]))
             \<and> filter is_Respond (handleSessionRequest e c True) =
                 [Respond (topic sr) \<lparr>resp_id = sr_id sr, jsonrpc = ''2.0'', outcome = RpcResult JNull\<rparr>])"
  proof (intro impI allI, elim conjE)
    fix p
    assume k: "walletKit c" "has_walletClient c"
      and p: "js_index (rpc_params (sr_request sr)) 0 = Inr p" "p \<noteq> JUndefined" "p \<noteq> JNull"
    from p(2,3) obtain name where nm: "js_get p ''chainName'' = Inr name"
      using js_get_defined by blast
    from p(2,3) obtain cid where ci: "js_get p ''chainId'' = Inr cid"
      using js_get_defined by blast
    have x: "execute_method e c (sr_request sr) = (Inr JNull, [Notify (ToastAddChain name cid)])"
      using assms(2) by (simp add: execute_method_def add_chain_branch_defined [OF p(1) nm ci])
    have h: "handleSessionRequest e c True =
                    SetPendingRequest True
                    # Notify (ToastAddChain name cid)
                    # Respond (topic sr) \<lparr>resp_id = sr_id sr, jsonrpc = ''2.0'', outcome = RpcResult JNull\<rparr>
                    # (case respondSessionRequest e (topic sr) \<lparr>resp_id = sr_id sr, jsonrpc = ''2.0'', outcome = RpcResult JNull\<rparr> of
                         Inr u \<Rightarrow> [SetPendingRequest False, SetNeedsChainSwitch False,
                                   SetTargetChainId None,
                                   Notify (ToastApproved ''wallet_addEthereumChain''), CloseModal]
                       | Inl err \<Rightarrow> [SetPendingRequest False, SetIsSwitchingChain False,
                                     SetNeedsChainSwitch False, SetTargetChainId None,
                                     Notify (ToastError True (error_message e err))])"
      using k assms
      by (simp add: handleSessionRequest_ready handle_try_def approve_branch_def x and_then_def
          call_ext_def emit_def success_response_def split: sum.splits)
    have f: "filter is_Respond (handleSessionRequest e c True) =
                 [Respond (topic sr) \<lparr>resp_id = sr_id sr, jsonrpc = ''2.0'', outcome = RpcResult JNull\<rparr>]"
      unfolding h by (simp split: sum.splits)
    from nm ci h f
    show "(\<exists>name cid.
                js_get p ''chainName'' = Inr name \<and> js_get p ''chainId'' = Inr cid
                \<and> handleSessionRequest e c True =
                    SetPendingRequest True
                    # Notify (ToastAddChain name cid)
                    # Respond (topic sr) \<lparr>resp_id = sr_id sr, jsonrpc = ''2.0'', outcome = RpcResult JNull\<rparr>
                    # (case respondSessionRequest e (topic sr) \<lparr>resp_id = sr_id sr, jsonrpc = ''2.0'', outcome = RpcResult JNull\<rparr> of
                         Inr u \<Rightarrow> [SetPendingRequest False, SetNeedsChainSwitch False,
                                   SetTargetChainId None,
                                   Notify (ToastApproved ''wallet_addEthereumChain''), CloseModal]
                       | Inl err \<Rightarrow> [SetPendingRequest False, SetIsSwitchingChain False,
                                     SetNeedsChainSwitch False, SetTargetChainId None,
                                     Notify (ToastError True (error_message e err))]))
             \<and> filter is_Respond (handleSessionRequest e c True) =
                 [Respond (topic sr) \<lparr>resp_id = sr_id sr, jsonrpc = ''2.0'', outcome = RpcResult JNull\<rparr>]"
      by blast
  qed
  have C: "\<not> walletKit c \<or> \<not> has_walletClient c \<longrightarrow> handleSessionRequest e c True = []"
    by (auto simp: handleSessionRequest_not_ready)
  from A Bp C show ?thesis by blast
qed

theorem add_chain_is_acknowledged_only_witness:
  "handleSessionRequest demo_bridge_env (demo_ctx add_chain_session) True =
     [SetPendingRequest True,
      Notify (ToastAddChain (JStr ''Mainnet'') (JStr ''0x1'')),
      Respond ''t0'' \<lparr>resp_id = 42, jsonrpc = ''2.0'', outcome = RpcResult JNull\<rparr>,
      SetPendingRequest False, SetNeedsChainSwitch False, SetTargetChainId None,
      Notify (ToastApproved ''wallet_addEthereumChain''), CloseModal]
   \<and> filter is_wallet_call (handleSessionRequest demo_bridge_env (demo_ctx bare_add_chain_session) True) = []"
proof -
  have r: "currentSessionRequest (demo_ctx add_chain_session) = Some add_chain_session"
    and k: "walletKit (demo_ctx add_chain_session) \<and> has_walletClient (demo_ctx add_chain_session)"
    by (simp_all add: demo_ctx_def)
  have m: "rpc_method (sr_request add_chain_session) = ''wallet_addEthereumChain''"
    by (simp add: add_chain_session_def demo_session_def)
  let ?p = "JObj [(''chainId'', JStr ''0x1''), (''chainName'', JStr ''Mainnet'')]"
  have p: "js_index (rpc_params (sr_request add_chain_session)) 0 = Inr ?p
      \<and> ?p \<noteq> JUndefined \<and> ?p \<noteq> JNull"
    by (simp add: add_chain_session_def demo_session_def)
  from add_chain_is_acknowledged_only [OF r m, of demo_bridge_env] k p
  obtain name cid where
    g: "js_get ?p ''chainName'' = Inr name" "js_get ?p ''chainId'' = Inr cid"
    and h: "handleSessionRequest demo_bridge_env (demo_ctx add_chain_session) True =
        SetPendingRequest True
        # Notify (ToastAddChain name cid)
        # Respond (topic add_chain_session)
            \<lparr>resp_id = sr_id add_chain_session, jsonrpc = ''2.0'', outcome = RpcResult JNull\<rparr>
        # (case respondSessionRequest demo_bridge_env (topic add_chain_session)
                  \<lparr>resp_id = sr_id add_chain_session, jsonrpc = ''2.0'',
                   outcome = RpcResult JNull\<rparr> of
             Inr u \<Rightarrow> [SetPendingRequest False, SetNeedsChainSwitch False, SetTargetChainId None,
                       Notify (ToastApproved ''wallet_addEthereumChain''), CloseModal]
           | Inl err \<Rightarrow> [SetPendingRequest False, SetIsSwitchingChain False,
                         SetNeedsChainSwitch False, SetTargetChainId None,
                         Notify (ToastError True (error_message demo_bridge_env err))])"
    by blast
  from g have nc: "name = JStr ''Mainnet''" "cid = JStr ''0x1''"
    by (simp_all add: obj_field_def)
  from h nc have a: "handleSessionRequest demo_bridge_env (demo_ctx add_chain_session) True =
     [SetPendingRequest True,
      Notify (ToastAddChain (JStr ''Mainnet'') (JStr ''0x1'')),
      Respond ''t0'' \<lparr>resp_id = 42, jsonrpc = ''2.0'', outcome = RpcResult JNull\<rparr>,
      SetPendingRequest False, SetNeedsChainSwitch False, SetTargetChainId None,
      Notify (ToastApproved ''wallet_addEthereumChain''), CloseModal]"
    by (simp add: demo_bridge_env_def add_chain_session_def demo_session_def)
  have r2: "currentSessionRequest (demo_ctx bare_add_chain_session) = Some bare_add_chain_session"
    by (simp add: demo_ctx_def)
  have m2: "rpc_method (sr_request bare_add_chain_session) = ''wallet_addEthereumChain''"
    by (simp add: bare_add_chain_session_def demo_session_def)
  from add_chain_is_acknowledged_only [OF r2 m2, of demo_bridge_env]
  have b: "filter is_wallet_call
      (handleSessionRequest demo_bridge_env (demo_ctx bare_add_chain_session) True) = []"
    by blast
  from a b show ?thesis by simp
qed

section \<open>Typed data that does not parse\<close>

lemma dec_string_small:
  "dec_string 0 = ''0''" "dec_string (Suc 0) = ''1''" "dec_string (Suc (Suc 0)) = ''2''"
  by (subst dec_string.simps, simp add: dec_digit_def)+

lemma sign_typed_data_v4_string:
  assumes "js_index (rpc_params r) 1 = Inr (JStr s)" and "json_parse e (JStr s) = None"
    and "walletClient st = Some wc"
  shows "sign_typed_data_v4 e st r =
     (case signTypedData e (JObj (index_entries 0 (map (\<lambda>ch. JStr [ch]) s))) of
        Inl err \<Rightarrow> Inl err
      | Inr sig \<Rightarrow> Inr (JStr sig),
      [SignTypedData wc (JObj (index_entries 0 (map (\<lambda>ch. JStr [ch]) s)))])"
  using assms
  by (simp add: sign_typed_data_v4_def tolerant_parse_def current_client_def split: sum.splits)

lemma sign_typed_data_branch_string:
  assumes "js_index (rpc_params rq) 1 = Inr (JStr s)" and "JSON_parse be (JStr s) = None"
  shows "sign_typed_data_branch be c rq =
     (case wc_signTypedData be \<lparr>td_account = user_address c, td_domain = JUndefined,
             td_types = JUndefined, td_primaryType = JUndefined, td_message = JUndefined\<rparr> of
        Inl err \<Rightarrow> Inl err
      | Inr sig \<Rightarrow> Inr (JStr sig),
      [Wallet_signTypedData \<lparr>td_account = user_address c, td_domain = JUndefined,
             td_types = JUndefined, td_primaryType = JUndefined, td_message = JUndefined\<rparr>])"
  using assms
  by (simp add: sign_typed_data_branch_def bridge_tolerant_parse_def read_index_def read_prop_def split: sum.splits)

text \<open>
  C5, as the claim states it, fails: for the typed-data parameter \<^verbatim>\<open>"abc"\<close>, which does not
  parse, the connector calls the signing capability with the spread of the string, the
  object \<^verbatim>\<open>{0: "a", 1: "b", 2: "c"}\<close>, and the bridge calls it with \<^verbatim>\<open>domain\<close>, \<^verbatim>\<open>types\<close>,
  \<^verbatim>\<open>primaryType\<close> and \<^verbatim>\<open>message\<close> all \<^verbatim>\<open>undefined\<close>; neither payload is the string.
\<close>

theorem unparseable_typed_data_counterexample:
  "json_parse demo_env (JStr ''abc'') = None
   \<and> js_index (rpc_params demo_typed) 1 = Inr (JStr ''abc'')
   \<and> snd (request demo_env demo_provider bound demo_typed) =
       [SignTypedData demo_client (JObj [(''0'', JStr ''a''), (''1'', JStr ''b''), (''2'', JStr ''c'')])]
   \<and> JObj [(''0'', JStr ''a''), (''1'', JStr ''b''), (''2'', JStr ''c'')] \<noteq> JStr ''abc''
   \<and> JSON_parse demo_bridge_env (JStr ''abc'') = None
   \<and> snd (execute_method demo_bridge_env (demo_ctx typed_session) (sr_request typed_session)) =
       [Wallet_signTypedData \<lparr>td_account = Some ''0xC5'', td_domain = JUndefined,
          td_types = JUndefined, td_primaryType = JUndefined, td_message = JUndefined\<rparr>]"
proof -
  have p: "json_parse demo_env (JStr ''abc'') = None" by (simp add: demo_env_def)
  have i: "js_index (rpc_params demo_typed) 1 = Inr (JStr ''abc'')" by (simp add: demo_typed_def)
  have w: "walletClient bound = Some demo_client" by (simp add: bound_def)
  have m: "rpc_method demo_typed = ''eth_signTypedData_v4''" by (simp add: demo_typed_def)
  have a: "snd (request demo_env demo_provider bound demo_typed) =
       [SignTypedData demo_client (JObj [(''0'', JStr ''a''), (''1'', JStr ''b''), (''2'', JStr ''c'')])]"
    by (simp add: request_def m sign_typed_data_v4_string [OF i p w] dec_string_small)
  have p2: "JSON_parse demo_bridge_env (JStr ''abc'') = None" by (simp add: demo_bridge_env_def)
  have i2: "js_index (rpc_params (sr_request typed_session)) 1 = Inr (JStr ''abc'')"
    by (simp add: typed_session_def demo_session_def)
  have m2: "rpc_method (sr_request typed_session) = ''eth_signTypedData_v4''"
    by (simp add: typed_session_def demo_session_def)
  have b: "snd (execute_method demo_bridge_env (demo_ctx typed_session) (sr_request typed_session)) =
       [Wallet_signTypedData \<lparr>td_account = Some ''0xC5'', td_domain = JUndefined,
          td_types = JUndefined, td_primaryType = JUndefined, td_message = JUndefined\<rparr>]"
    by (simp add: execute_method_def m2 sign_typed_data_branch_string [OF i2 p2] demo_ctx_def)
  from p i a p2 b show ?thesis by simp
qed

text \<open>
  C5, amended. For a typed-data-signing request whose structured-data parameter is a
  string that fails to parse, the parse failure is swallowed and the variable
  \<^verbatim>\<open>typedData\<close> keeps the string; no parse exception escapes, and the only error the
  request can end with is the one the signing capability throws. The payload handed to
  the signing capability is built from that string: in the connector
  (\<^verbatim>\<open>eth_signTypedData_v4\<close>) it is the object spread of the string, its characters keyed
  by index; in the bridge (\<^verbatim>\<open>eth_signTypedData\<close>, \<^verbatim>\<open>_v3\<close>, \<^verbatim>\<open>_v4\<close>) it is the account with
  the string's \<^verbatim>\<open>domain\<close>, \<^verbatim>\<open>types\<close>, \<^verbatim>\<open>primaryType\<close> and \<^verbatim>\<open>message\<close> properties, which are
  all \<^verbatim>\<open>undefined\<close>.
\<close>

theorem unparseable_typed_data_string:
  "(rpc_method r = ''eth_signTypedData_v4'' \<and> js_index (rpc_params r) 1 = Inr (JStr s)
      \<and> json_parse e (JStr s) = None \<and> walletClient st = Some wc \<longrightarrow>
        tolerant_parse e (JStr s) = JStr s
        \<and> request e pr st r =
            (case signTypedData e (JObj (index_entries 0 (map (\<lambda>ch. JStr [ch]) s))) of
               Inl err \<Rightarrow> Inl err
             | Inr sig \<Rightarrow> Inr (JStr sig),
             [SignTypedData wc (JObj (index_entries 0 (map (\<lambda>ch. JStr [ch]) s)))]))
   \<and> ((rpc_method rq = ''eth_signTypedData'' \<or> rpc_method rq = ''eth_signTypedData_v3''
         \<or> rpc_method rq = ''eth_signTypedData_v4'')
       \<and> js_index (rpc_params rq) 1 = Inr (JStr s) \<and> JSON_parse be (JStr s) = None \<longrightarrow>
        bridge_tolerant_parse be (JStr s) = JStr s
        \<and> execute_method be c rq =
            (case wc_signTypedData be \<lparr>td_account = user_address c, td_domain = JUndefined,
                    td_types = JUndefined, td_primaryType = JUndefined,
                    td_message = JUndefined\<rparr> of
               Inl err \<Rightarrow> Inl err
             | Inr sig \<Rightarrow> Inr (JStr sig),
             [Wallet_signTypedData \<lparr>td_account = user_address c, td_domain = JUndefined,
                    td_types = JUndefined, td_primaryType = JUndefined,
                    td_message = JUndefined\<rparr>]))"
proof -
  have a: "rpc_method r = ''eth_signTypedData_v4'' \<and> js_index (rpc_params r) 1 = Inr (JStr s)
      \<and> json_parse e (JStr s) = None \<and> walletClient st = Some wc \<longrightarrow>
        tolerant_parse e (JStr s) = JStr s
        \<and> request e pr st r =
            (case signTypedData e (JObj (index_entries 0 (map (\<lambda>ch. JStr [ch]) s))) of
               Inl err \<Rightarrow> Inl err
             | Inr sig \<Rightarrow> Inr (JStr sig),
             [SignTypedData wc (JObj (index_entries 0 (map (\<lambda>ch. JStr [ch]) s)))])"
    by (simp add: request_def sign_typed_data_v4_string tolerant_parse_def)
  have b: "(rpc_method rq = ''eth_signTypedData'' \<or> rpc_method rq = ''eth_signTypedData_v3''
         \<or> rpc_method rq = ''eth_signTypedData_v4'')
       \<and> js_index (rpc_params rq) 1 = Inr (JStr s) \<and> JSON_parse be (JStr s) = None \<longrightarrow>
        bridge_tolerant_parse be (JStr s) = JStr s
        \<and> execute_method be c rq =
            (case wc_signTypedData be \<lparr>td_account = user_address c, td_domain = JUndefined,
                    td_types = JUndefined, td_primaryType = JUndefined,
                    td_message = JUndefined\<rparr> of
               Inl err \<Rightarrow> Inl err
             | Inr sig \<Rightarrow> Inr (JStr sig),
             [Wallet_signTypedData \<lparr>td_account = user_address c, td_domain = JUndefined,
                    td_types = JUndefined, td_primaryType = JUndefined,
                    td_message = JUndefined\<rparr>])"
    by (auto simp: execute_method_def sign_typed_data_branch_string bridge_tolerant_parse_def)
  from a b show ?thesis by blast
qed

theorem unparseable_typed_data_string_witness:
  "request demo_env demo_provider bound demo_typed =
      (Inr (JStr ''0x5190''),
       [SignTypedData demo_client (JObj [(''0'', JStr ''a''), (''1'', JStr ''b''), (''2'', JStr ''c'')])])
   \<and> execute_method demo_bridge_env (demo_ctx typed_session) (sr_request typed_session) =
      (Inr (JStr ''0x5192''),
       [Wallet_signTypedData \<lparr>td_account = Some ''0xC5'', td_domain = JUndefined,
          td_types = JUndefined, td_primaryType = JUndefined, td_message = JUndefined\<rparr>])"
proof -
  have p: "json_parse demo_env (JStr ''abc'') = None" by (simp add: demo_env_def)
  have i: "js_index (rpc_params demo_typed) 1 = Inr (JStr ''abc'')" by (simp add: demo_typed_def)
  have w: "walletClient bound = Some demo_client" by (simp add: bound_def)
  have m: "rpc_method demo_typed = ''eth_signTypedData_v4''" by (simp add: demo_typed_def)
  have p2: "JSON_parse demo_bridge_env (JStr ''abc'') = None" by (simp add: demo_bridge_env_def)
  have i2: "js_index (rpc_params (sr_request typed_session)) 1 = Inr (JStr ''abc'')"
    by (simp add: typed_session_def demo_session_def)
  have m2: "rpc_method (sr_request typed_session) = ''eth_signTypedData_v4''"
    by (simp add: typed_session_def demo_session_def)
  note t = unparseable_typed_data_string [where r = demo_typed and s = "''abc''" and e = demo_env
      and st = bound and wc = demo_client and pr = demo_provider
      and rq = "sr_request typed_session" and be = demo_bridge_env and c = "demo_ctx typed_session"]
  from t m i p w have a: "request demo_env demo_provider bound demo_typed =
      (case signTypedData demo_env (JObj (index_entries 0 (map (\<lambda>ch. JStr [ch]) ''abc''))) of
         Inl err \<Rightarrow> Inl err | Inr sig \<Rightarrow> Inr (JStr sig),
       [SignTypedData demo_client (JObj (index_entries 0 (map (\<lambda>ch. JStr [ch]) ''abc'')))])"
    by blast
  from t m2 i2 p2 have b: "execute_method demo_bridge_env (demo_ctx typed_session) (sr_request typed_session) =
      (case wc_signTypedData demo_bridge_env \<lparr>td_account = user_address (demo_ctx typed_session),
              td_domain = JUndefined, td_types = JUndefined, td_primaryType = JUndefined,
              td_message = JUndefined\<rparr> of
         Inl err \<Rightarrow> Inl err | Inr sig \<Rightarrow> Inr (JStr sig),
       [Wallet_signTypedData \<lparr>td_account = user_address (demo_ctx typed_session),
              td_domain = JUndefined, td_types = JUndefined, td_primaryType = JUndefined,
              td_message = JUndefined\<rparr>])"
    by blast
  from a b show ?thesis
    by (simp add: demo_env_def demo_bridge_env_def demo_ctx_def dec_string_small)
qed


end
